theory Spec2Isabelle
  imports Complex_Main
begin

section \<open>Values shared by the application\<close>

text \<open>
  JavaScript numbers are modelled as exact reals: rounding of IEEE doubles is outside
  the model. DOM integers (\<open>naturalWidth\<close>, \<open>File.size\<close>) are naturals.
  A thrown or rejected value is either an \<open>Error\<close> object, which carries a
  message, or some other value (a \<open>ProgressEvent\<close> of a \<open>FileReader\<close>).
\<close>

datatype Thrown = ErrorObj string | OtherThrown

text \<open>\<open>error.message\<close>: undefined when the value is not an \<open>Error\<close>.\<close>

fun message :: "Thrown \<Rightarrow> string option" where
  "message (ErrorObj m) = Some m"
| "message OtherThrown = None"


text \<open>\<open>${error.message}\<close> inside a template string.\<close>

definition messageText :: "Thrown \<Rightarrow> string" where
  "messageText e = (case message e of None \<Rightarrow> ''undefined'' | Some m \<Rightarrow> m)"

type_synonym LogEntry = "string \<times> Thrown"

subsection \<open>types.ts\<close>

datatype AspectRatio = SQUARE | PORTRAIT | LANDSCAPE

datatype LightingStyle = STUDIO | NATURAL | CINEMATIC | DRAMATIC | SOFT | HIGH_KEY

datatype CameraPerspective =
  EYE_LEVEL | HIGH_ANGLE | LOW_ANGLE | CLOSE_UP | WIDE_SHOT | DUTCH_ANGLE

text \<open>The shape \<open>{ base64: string, mimeType: string }\<close> used for product and style images.\<close>

record EncodedImage =
  base64 :: string
  mimeType :: string

text \<open>The shape \<open>{ dataUrl: string, mimeType: string }\<close> of the uploaded original.\<close>

record OriginalImage =
  dataUrl :: string
  originalMimeType :: string

section \<open>Upload (App.handleFileUpload)\<close>

text \<open>
  A \<open>File\<close> as the handler reads it: its declared type and its size in bytes. What
  the \<open>FileReader\<close> of \<open>fileToBase64\<close> makes of the file is the environment's:
  either the data URL \<open>header,payload\<close> (the payload of a data URL holds no comma, so
  \<open>result.split(',')[1]\<close> is the payload), or an error event.
\<close>

datatype FileRead = FileLoaded string string | FileReadError

record File =
  ftype :: string
  fsize :: nat
  fread :: FileRead

datatype UploadType = Product | Style

fun uploadTypeText :: "UploadType \<Rightarrow> string" where
  "uploadTypeText Product = ''product''"
| "uploadTypeText Style = ''style''"

definition MAX_FILE_SIZE_MB :: nat where
  "MAX_FILE_SIZE_MB = 10"

definition MAX_FILE_SIZE_BYTES :: nat where
  "MAX_FILE_SIZE_BYTES = MAX_FILE_SIZE_MB * 1024 * 1024"

definition SUPPORTED_MIME_TYPES :: "string list" where
  "SUPPORTED_MIME_TYPES = [''image/jpeg'', ''image/png'', ''image/webp'']"

definition unsupportedTypeMessage :: string where
  "unsupportedTypeMessage =
     ''Unsupported file type. Please upload a JPEG, PNG, or WEBP image.''"

text \<open>The template \<open>${MAX_FILE_SIZE_MB}MB\<close> with the constant 10 printed.\<close>

definition fileTooLargeMessage :: string where
  "fileTooLargeMessage =
     ''File is too large. Please upload an image smaller than 10MB.''"

text \<open>\<open>fileToBase64\<close>: resolves with the payload and the file's type, or rejects with the
  reader's error event.\<close>

definition fileToBase64 :: "File \<Rightarrow> Thrown + EncodedImage" where
  "fileToBase64 file =
     (case fread file of
        FileLoaded header payload \<Rightarrow> Inr \<lparr>base64 = payload, mimeType = ftype file\<rparr>
      | FileReadError \<Rightarrow> Inl OtherThrown)"

text \<open>
  The state of \<open>App\<close>: one field per \<open>useState\<close>. \<open>console\<close> is not React state: it
  is the list of \<open>console.error\<close> lines, kept with the state so that logging is an
  effect of the model.
\<close>

record AppState =
  productImage :: "EncodedImage option"
  originalProductImage :: "OriginalImage option"
  isCropModalOpen :: bool
  styleReferenceImage :: "EncodedImage option"
  aspectRatio :: AspectRatio
  lightingStyle :: LightingStyle
  cameraPerspective :: CameraPerspective
  prompt :: string
  generatedImage :: "string option"
  isGeneratingPrompt :: bool
  isGeneratingImage :: bool
  error :: "string option"
  console :: "LogEntry list"

definition initialAppState :: AppState where
  "initialAppState =
     \<lparr>productImage = None, originalProductImage = None, isCropModalOpen = False,
      styleReferenceImage = None, aspectRatio = SQUARE, lightingStyle = STUDIO,
      cameraPerspective = EYE_LEVEL, prompt = [], generatedImage = None,
      isGeneratingPrompt = False, isGeneratingImage = False, error = None,
      console = []\<rparr>"

text \<open>The two checks of \<open>handleFileUpload\<close>, in the source's order: the message of the
  first violated one, or nothing.\<close>

definition uploadRejection :: "File \<Rightarrow> string option" where
  "uploadRejection file =
     (if ftype file \<notin> set SUPPORTED_MIME_TYPES then Some unsupportedTypeMessage
      else if fsize file > MAX_FILE_SIZE_BYTES then Some fileTooLargeMessage
      else None)"

definition handleFileUpload :: "File \<Rightarrow> UploadType \<Rightarrow> AppState \<Rightarrow> AppState" where
  "handleFileUpload file ty st =
     (let st1 = st\<lparr>error := None\<rparr> in
      case uploadRejection file of
        Some msg \<Rightarrow> st1\<lparr>error := Some msg\<rparr>
      | None \<Rightarrow>
          (case fileToBase64 file of
             Inr img \<Rightarrow>
               (case ty of
                  Product \<Rightarrow>
                    st1\<lparr>originalProductImage :=
                          Some \<lparr>dataUrl = ''data:'' @ mimeType img @ '';base64,'' @ base64 img,
                                originalMimeType = mimeType img\<rparr>,
                        productImage := None,
                        isCropModalOpen := True\<rparr>
                | Style \<Rightarrow> st1\<lparr>styleReferenceImage := Some img\<rparr>)
           | Inl err \<Rightarrow>
               st1\<lparr>console := console st1 @
                       [(''Failed to process '' @ uploadTypeText ty @ '' image:'', err)],
                   error := Some (''Error loading '' @ uploadTypeText ty @ '' image: ''
                                   @ messageText err @ ''. Please try a different file.'')\<rparr>))"

definition MiB :: nat where
  "MiB = 1024 * 1024"

section \<open>Remote generation client (services/geminiService)\<close>

subsection \<open>Strings\<close>

text \<open>\<open>s.startsWith(p)\<close>, \<open>s.includes(sub)\<close> and \<open>s.toLowerCase()\<close> on ASCII text.\<close>

definition startsWith :: "string \<Rightarrow> string \<Rightarrow> bool" where
  "startsWith s p = (take (length p) s = p)"

fun js_includes :: "string \<Rightarrow> string \<Rightarrow> bool" where
  "js_includes [] sub = (sub = [])"
| "js_includes (c # cs) sub = (if startsWith (c # cs) sub then True else js_includes cs sub)"

definition toLowerChar :: "char \<Rightarrow> char" where
  "toLowerChar c =
     (if 65 \<le> (of_char c :: nat) \<and> (of_char c :: nat) \<le> 90
      then char_of (of_char c + 32 :: nat) else c)"

definition toLowerCase :: "string \<Rightarrow> string" where
  "toLowerCase s = map toLowerChar s"

subsection \<open>The remote service\<close>

text \<open>
  \<open>ai.models.generateContent\<close> is the environment: a function from the request to
  either a thrown value or a response. A response is modelled with the fields
  \<open>editProductImage\<close> reads: \<open>candidates\<close> and, of the first candidate,
  \<open>content.parts\<close>; of a part, \<open>inlineData\<close> with its \<open>mimeType\<close> and \<open>data\<close>. Each of
  them may be absent from what the service sends (a candidate stopped for safety has no
  \<open>content\<close>), so each is optional in the model.
\<close>

record InlineData =
  inlineBytes :: "string option"
  inlineMimeType :: "string option"

record Part =
  partText :: "string option"
  inlineData :: "InlineData option"

record Content =
  contentParts :: "Part list option"

record Candidate =
  content :: "Content option"

record GenerateContentResponse =
  candidates :: "Candidate list option"

record GenerateContentRequest =
  reqModel :: string
  reqParts :: "Part list"

type_synonym GenerateContent = "GenerateContentRequest \<Rightarrow> Thrown + GenerateContentResponse"

definition imageEditingModel :: string where
  "imageEditingModel = ''gemini-2.5-flash-image-preview''"

definition invalidApiKeyMessage :: string where
  "invalidApiKeyMessage =
     ''Invalid API Key. Please check if the API key is configured correctly.''"

definition rateLimitMessage :: string where
  "rateLimitMessage =
     ''You have exceeded your API request limit. Please wait and try again later.''"

definition unexpectedErrorMessage :: "string \<Rightarrow> string" where
  "unexpectedErrorMessage ctx =
     ''An unexpected error occurred during '' @ ctx @ ''. Please check the console for details.''"

definition noImageMessage :: string where
  "noImageMessage =
     ''The AI model did not return an image. Try adjusting your prompt or using a different image.''"

text \<open>
  Reading a property of \<open>undefined\<close>, or iterating over it, throws a \<open>TypeError\<close>, an
  \<open>Error\<close> whose message is worded by the JavaScript engine. The messages below are
  V8's for the three unguarded reads of \<open>editProductImage\<close>: \<open>content.parts\<close> with no
  \<open>content\<close>, the loop over \<open>parts\<close> with no \<open>parts\<close>, and \<open>mimeType.startsWith\<close> with no
  \<open>mimeType\<close>. The source only searches such a message for three phrases.
\<close>

definition cannotReadProperty :: "string \<Rightarrow> string" where
  "cannotReadProperty name =
     ''Cannot read properties of undefined (reading '' @ [CHR 0x27] @ name @ [CHR 0x27] @ '')''"

definition partsNotIterable :: string where
  "partsNotIterable = ''response.candidates[0].content.parts is not iterable''"

text \<open>\<open>handleGeminiError\<close>: the error it returns, and the line it writes to the console.\<close>

definition handleGeminiError :: "Thrown \<Rightarrow> string \<Rightarrow> Thrown \<times> LogEntry list" where
  "handleGeminiError err ctx =
     ((case err of
         ErrorObj m \<Rightarrow>
           (let msg = toLowerCase m in
            if js_includes msg ''api key not valid'' then ErrorObj invalidApiKeyMessage
            else if js_includes msg ''rate limit'' then ErrorObj rateLimitMessage
            else if js_includes msg ''did not return an image'' then err
            else ErrorObj (unexpectedErrorMessage ctx))
       | OtherThrown \<Rightarrow> ErrorObj (unexpectedErrorMessage ctx)),
      [(''Error during '' @ ctx @ '':'', err)])"

definition inlinePart :: "EncodedImage \<Rightarrow> Part" where
  "inlinePart img =
     \<lparr>partText = None,
      inlineData = Some \<lparr>inlineBytes = Some (base64 img),
                         inlineMimeType = Some (mimeType img)\<rparr>\<rparr>"

definition textPart :: "string \<Rightarrow> Part" where
  "textPart t = \<lparr>partText = Some t, inlineData = None\<rparr>"

text \<open>\<open>${value}\<close> in a template string, for a string that may be undefined.\<close>

definition templateText :: "string option \<Rightarrow> string" where
  "templateText v = (case v of None \<Rightarrow> ''undefined'' | Some t \<Rightarrow> t)"

text \<open>
  The loop over the parts of the first candidate. It returns at the first part whose
  inline data has an image type (\<open>Inr (Some url)\<close>), runs to the end (\<open>Inr None\<close>), or
  throws at a part whose inline data has no \<open>mimeType\<close> (\<open>Inl\<close>).
\<close>

fun findImagePart :: "Part list \<Rightarrow> Thrown + string option" where
  "findImagePart [] = Inr None"
| "findImagePart (part # rest) =
     (case inlineData part of
        None \<Rightarrow> findImagePart rest
      | Some d \<Rightarrow>
          (case inlineMimeType d of
             None \<Rightarrow> Inl (ErrorObj (cannotReadProperty ''startsWith''))
           | Some m \<Rightarrow>
               if startsWith m ''image/''
               then Inr (Some (''data:'' @ m @ '';base64,'' @ templateText (inlineBytes d)))
               else findImagePart rest))"

text \<open>The guard on \<open>candidates\<close> and the reads of \<open>candidates[0].content.parts\<close> in front
  of the loop.\<close>

definition firstImageUrl :: "GenerateContentResponse \<Rightarrow> Thrown + string option" where
  "firstImageUrl response =
     (case candidates response of
        None \<Rightarrow> Inr None
      | Some cs \<Rightarrow>
          (case cs of
             [] \<Rightarrow> Inr None
           | c # rest \<Rightarrow>
               (case content c of
                  None \<Rightarrow> Inl (ErrorObj (cannotReadProperty ''parts''))
                | Some ct \<Rightarrow>
                    (case contentParts ct of
                       None \<Rightarrow> Inl (ErrorObj partsNotIterable)
                     | Some ps \<Rightarrow> findImagePart ps))))"

text \<open>What a part of the response is to that loop: an image part has inline data of an
  image type, a part the loop passes over has no inline data or inline data of another
  type, and the data URL of an image part is what the loop returns.\<close>

definition isImagePart :: "Part \<Rightarrow> bool" where
  "isImagePart part =
     (case inlineData part of
        None \<Rightarrow> False
      | Some d \<Rightarrow> (case inlineMimeType d of None \<Rightarrow> False | Some m \<Rightarrow> startsWith m ''image/''))"

definition isSkippedPart :: "Part \<Rightarrow> bool" where
  "isSkippedPart part =
     (case inlineData part of
        None \<Rightarrow> True
      | Some d \<Rightarrow> (case inlineMimeType d of None \<Rightarrow> False | Some m \<Rightarrow> \<not> startsWith m ''image/''))"

definition partUrl :: "Part \<Rightarrow> string" where
  "partUrl part =
     (case inlineData part of
        None \<Rightarrow> []
      | Some d \<Rightarrow> ''data:'' @ templateText (inlineMimeType d) @ '';base64,''
                    @ templateText (inlineBytes d))"

text \<open>The request of \<open>editProductImage\<close>: the product image, the prompt and, when there
  is one, the style image.\<close>

definition editRequest ::
  "EncodedImage \<Rightarrow> string \<Rightarrow> EncodedImage option \<Rightarrow> GenerateContentRequest" where
  "editRequest productImg promptText styleImage =
     \<lparr>reqModel = imageEditingModel,
      reqParts = [inlinePart productImg, textPart promptText]
                   @ (case styleImage of None \<Rightarrow> [] | Some s \<Rightarrow> [inlinePart s])\<rparr>"

text \<open>\<open>editProductImage\<close>: the \<open>try\<close> block either returns the data URL or throws (the
  remote call, an unguarded read of the response, or the no-image error after the loop);
  the \<open>catch\<close> rethrows what \<open>handleGeminiError\<close> makes of the thrown value. The result
  comes with the lines written to the console.\<close>

definition editProductImage ::
  "GenerateContent \<Rightarrow> EncodedImage \<Rightarrow> string \<Rightarrow> EncodedImage option
     \<Rightarrow> (Thrown + string) \<times> LogEntry list" where
  "editProductImage generateContent productImg promptText styleImage =
     (let attempt =
            (case generateContent (editRequest productImg promptText styleImage) of
               Inl thrown \<Rightarrow> Inl thrown
             | Inr response \<Rightarrow>
                 (case firstImageUrl response of
                    Inl thrown \<Rightarrow> Inl thrown
                  | Inr found \<Rightarrow>
                      (case found of
                         Some imageUrl \<Rightarrow> Inr imageUrl
                       | None \<Rightarrow> Inl (ErrorObj noImageMessage))))
      in case attempt of
           Inr imageUrl \<Rightarrow> (Inr imageUrl, [])
         | Inl thrown \<Rightarrow>
             (Inl (fst (handleGeminiError thrown ''image generation'')),
              snd (handleGeminiError thrown ''image generation'')))"

section \<open>Image generation (App.handleGenerateImage)\<close>




definition handleCropSave :: "EncodedImage \<Rightarrow> AppState \<Rightarrow> AppState" where
  "handleCropSave croppedImage st =
     st\<lparr>productImage := Some croppedImage, isCropModalOpen := False\<rparr>"

definition getAspectRatioValue :: "AspectRatio \<Rightarrow> real" where
  "getAspectRatioValue ar =
     (case ar of SQUARE \<Rightarrow> 1 / 1 | PORTRAIT \<Rightarrow> 3 / 4 | LANDSCAPE \<Rightarrow> 16 / 9)"

section \<open>Crop dialog (components/ImageCropModal)\<close>

subsection \<open>Crop rectangles\<close>

text \<open>
  A \<open>Crop\<close> of react-image-crop: a rectangle with its unit tag (\<open>'%'\<close> or \<open>'px'\<close>).
  \<open>PartialCrop\<close> is the argument of \<open>makeAspectCrop\<close>, where every field but the unit
  may be missing.
\<close>

datatype CropUnit = Percent | Pixel

record Crop =
  cunit :: CropUnit
  cx :: real
  cy :: real
  cwidth :: real
  cheight :: real

record PartialCrop =
  punit :: CropUnit
  px :: "real option"
  py :: "real option"
  pwidth :: "real option"
  pheight :: "real option"

text \<open>The rectangle in pixels of a container that a crop denotes: a percent crop is
  a share of the container's extent.\<close>

definition cropInPixels :: "Crop \<Rightarrow> real \<Rightarrow> real \<Rightarrow> real \<times> real \<times> real \<times> real" where
  "cropInPixels c containerWidth containerHeight =
     (case cunit c of
        Pixel \<Rightarrow> (cx c, cy c, cwidth c, cheight c)
      | Percent \<Rightarrow>
          (cx c * containerWidth / 100, cy c * containerHeight / 100,
           cwidth c * containerWidth / 100, cheight c * containerHeight / 100))"

text \<open>
  The two functions the dialog imports from react-image-crop. The dialog is modelled
  over any pair of them, so that what it does with their result is separate from what
  they compute.
\<close>

record CropLib =
  libMakeAspectCrop :: "PartialCrop \<Rightarrow> real \<Rightarrow> real \<Rightarrow> real \<Rightarrow> Crop"
  libCenterCrop :: "Crop \<Rightarrow> real \<Rightarrow> real \<Rightarrow> Crop"

text \<open>
  Modelled from the spec: react-image-crop's \<open>makeAspectCrop\<close> and \<open>centerCrop\<close> are
  not among the sources; only their call in \<open>onImageLoad\<close> is. The spec says that the
  call "computes the largest rectangle with the target aspect ratio that fits within
  90% of the image's displayed extent, centered". \<open>makeAspectCrop\<close> is that largest
  rectangle, for the share of the extent its argument gives as \<open>width\<close> (90 percent in
  the dialog), placed at the origin; \<open>centerCrop\<close> moves a rectangle to the centre.
\<close>

definition makeAspectCrop :: "PartialCrop \<Rightarrow> real \<Rightarrow> real \<Rightarrow> real \<Rightarrow> Crop" where
  "makeAspectCrop partial aspect containerWidth containerHeight =
     (let share = (case pwidth partial of
                     None \<Rightarrow> 1
                   | Some w \<Rightarrow> (case punit partial of
                                 Percent \<Rightarrow> w / 100
                               | Pixel \<Rightarrow> w / containerWidth));
          w = min (share * containerWidth) (share * containerHeight * aspect);
          h = w / aspect
      in case punit partial of
           Pixel \<Rightarrow> \<lparr>cunit = Pixel, cx = 0, cy = 0, cwidth = w, cheight = h\<rparr>
         | Percent \<Rightarrow>
             \<lparr>cunit = Percent, cx = 0, cy = 0,
              cwidth = w / containerWidth * 100, cheight = h / containerHeight * 100\<rparr>)"

text \<open>Modelled from the spec: \<open>centerCrop\<close>, also absent from the sources, puts the
  rectangle it is given in the middle of the container ("centered"), in the unit of the
  rectangle.\<close>

definition centerCrop :: "Crop \<Rightarrow> real \<Rightarrow> real \<Rightarrow> Crop" where
  "centerCrop c containerWidth containerHeight =
     (case cunit c of
        Pixel \<Rightarrow> c\<lparr>cx := (containerWidth - cwidth c) / 2, cy := (containerHeight - cheight c) / 2\<rparr>
      | Percent \<Rightarrow> c\<lparr>cx := (100 - cwidth c) / 2, cy := (100 - cheight c) / 2\<rparr>)"

text \<open>Modelled from the spec: the library, as the two definitions above.\<close>

definition reactImageCrop :: CropLib where
  "reactImageCrop = \<lparr>libMakeAspectCrop = makeAspectCrop, libCenterCrop = centerCrop\<rparr>"

subsection \<open>The image element and the canvas\<close>

text \<open>
  An \<open>HTMLImageElement\<close> as \<open>getCroppedImg\<close> and \<open>onImageLoad\<close> read it: the natural
  size of the decoded image and the rendered size (\<open>width\<close>, \<open>height\<close>). The DOM rounds
  the rendered size to an integer; the model keeps it as laid out.
\<close>

record HTMLImageElement =
  naturalWidth :: nat
  naturalHeight :: nat
  iwidth :: real
  iheight :: real

text \<open>The one \<open>drawImage\<close> call: source rectangle, then destination rectangle.\<close>

datatype DrawCall = DrawImage real real real real real real real real

text \<open>The canvas after \<open>getCroppedImg\<close> has sized it and drawn on it. \<open>canvasWidth\<close> and
  \<open>canvasHeight\<close> hold the values assigned to \<open>canvas.width\<close> and \<open>canvas.height\<close>.\<close>

record Canvas =
  canvasWidth :: int
  canvasHeight :: int
  drawn :: "DrawCall option"

text \<open>
  What the browser does is a parameter: whether \<open>getContext('2d')\<close> yields a context,
  the blob \<open>toBlob\<close> passes to its callback (none when serialisation fails), and what
  the \<open>FileReader\<close> makes of a blob: an error event, or the end of the read with the
  data URL \<open>header,payload\<close> or with no result.
\<close>

type_synonym Blob = string

datatype ReaderOutcome = ReaderError | ReaderEnded "(string \<times> string) option"

record Browser =
  getContext2d :: bool
  toBlob :: "Canvas \<Rightarrow> string \<Rightarrow> Blob option"
  readAsDataURL :: "Blob \<Rightarrow> ReaderOutcome"

text \<open>
  The scale factors. Where the rendered width or height is zero, JavaScript's division
  gives \<open>Infinity\<close> or \<open>NaN\<close>, which the assignment to \<open>canvas.width\<close> turns into 0
  and with which \<open>drawImage\<close> draws nothing; HOL's division gives 0, and with it the
  same canvas size and an empty source rectangle.
\<close>

definition scaleX :: "HTMLImageElement \<Rightarrow> real" where
  "scaleX img = real (naturalWidth img) / iwidth img"

definition scaleY :: "HTMLImageElement \<Rightarrow> real" where
  "scaleY img = real (naturalHeight img) / iheight img"

text \<open>The canvas of \<open>getCroppedImg\<close>: sized with the floored scaled crop size, then one
  \<open>drawImage\<close> of the scaled crop rectangle to the canvas origin. The unit of the crop
  is not read.\<close>

definition croppedCanvas :: "HTMLImageElement \<Rightarrow> Crop \<Rightarrow> Canvas" where
  "croppedCanvas img crop =
     (let cropX = cx crop * scaleX img;
          cropY = cy crop * scaleY img;
          cropWidth = cwidth crop * scaleX img;
          cropHeight = cheight crop * scaleY img
      in \<lparr>canvasWidth = \<lfloor>cwidth crop * scaleX img\<rfloor>,
          canvasHeight = \<lfloor>cheight crop * scaleY img\<rfloor>,
          drawn = Some (DrawImage cropX cropY cropWidth cropHeight 0 0 cropWidth cropHeight)\<rparr>)"

definition getCroppedImg ::
  "Browser \<Rightarrow> HTMLImageElement \<Rightarrow> Crop \<Rightarrow> string \<Rightarrow> Thrown + EncodedImage" where
  "getCroppedImg browser img crop mime =
     (if getContext2d browser then
        (case toBlob browser (croppedCanvas img crop) mime of
           None \<Rightarrow> Inl (ErrorObj ''Canvas is empty'')
         | Some blob \<Rightarrow>
             (case readAsDataURL browser blob of
                ReaderError \<Rightarrow> Inl OtherThrown
              | ReaderEnded res \<Rightarrow>
                  (case res of
                     None \<Rightarrow> Inl (ErrorObj ''Failed to read blob as data URL'')
                   | Some url \<Rightarrow> Inr \<lparr>base64 = snd url, mimeType = mime\<rparr>)))
      else Inl (ErrorObj ''Could not get canvas context''))"

text \<open>
  The HTML standard's rule for \<open>toBlob\<close>: a canvas whose bitmap has no pixels (its
  width or its height is zero) is serialised to no blob. A property of the browser, not
  of the source.
\<close>

definition noPixelsNoBlob :: "Browser \<Rightarrow> bool" where
  "noPixelsNoBlob browser =
     (\<forall>c mime. (canvasWidth c = 0 \<or> canvasHeight c = 0) \<longrightarrow> toBlob browser c mime = None)"

subsection \<open>The dialog's state and its handlers\<close>

record ImgSize =
  swidth :: real
  sheight :: real

text \<open>
  The \<open>img\<close> node behind \<open>imgRef\<close>: the natural size of its image (zero until it has
  loaded) and the size the layout gives it under the constraints of the first render
  (\<open>maxHeight: 65vh\<close>, \<open>maxWidth: 100%\<close>).
\<close>

record ImgNode =
  nodeNaturalWidth :: nat
  nodeNaturalHeight :: nat
  constrainedWidth :: real
  constrainedHeight :: real

text \<open>The dialog's \<open>useState\<close> and \<open>useRef\<close> values, with the two props its handlers
  read (\<open>aspect\<close>, \<open>mimeType\<close>).\<close>

record ModalState =
  crop :: "Crop option"
  isSaving :: bool
  scale :: real
  imgSize :: ImgSize
  imgRef :: "ImgNode option"
  aspect :: real
  modalMimeType :: string

definition initialModalState :: "real \<Rightarrow> string \<Rightarrow> ModalState" where
  "initialModalState a mime =
     \<lparr>crop = None, isSaving = False, scale = 1, imgSize = \<lparr>swidth = 0, sheight = 0\<rparr>,
      imgRef = None, aspect = a, modalMimeType = mime\<rparr>"

text \<open>The \<open>style\<close> of the \<open>img\<close>: the constraints while \<open>imgSize.width\<close> is zero, the
  explicit size \<open>imgSize * scale\<close> afterwards.\<close>

definition renderedWidth :: "ModalState \<Rightarrow> ImgNode \<Rightarrow> real" where
  "renderedWidth st node =
     (if swidth (imgSize st) = 0 then constrainedWidth node else swidth (imgSize st) * scale st)"

definition renderedHeight :: "ModalState \<Rightarrow> ImgNode \<Rightarrow> real" where
  "renderedHeight st node =
     (if swidth (imgSize st) = 0 then constrainedHeight node else sheight (imgSize st) * scale st)"

text \<open>\<open>imgRef.current\<close> (and \<open>e.currentTarget\<close>) as the handlers read it.\<close>

definition currentImage :: "ModalState \<Rightarrow> ImgNode \<Rightarrow> HTMLImageElement" where
  "currentImage st node =
     \<lparr>naturalWidth = nodeNaturalWidth node, naturalHeight = nodeNaturalHeight node,
      iwidth = renderedWidth st node, iheight = renderedHeight st node\<rparr>"

text \<open>The expression \<open>centerCrop(makeAspectCrop({unit: '%', width: 90}, aspect,
  naturalWidth, naturalHeight), naturalWidth, naturalHeight)\<close> of both handlers.\<close>

definition centeredAspectCrop :: "CropLib \<Rightarrow> real \<Rightarrow> nat \<Rightarrow> nat \<Rightarrow> Crop" where
  "centeredAspectCrop lib a nw nh =
     libCenterCrop lib
       (libMakeAspectCrop lib
          \<lparr>punit = Percent, px = None, py = None, pwidth = Some 90, pheight = None\<rparr>
          a (real nw) (real nh))
       (real nw) (real nh)"

definition onImageLoad :: "CropLib \<Rightarrow> ImgNode \<Rightarrow> ModalState \<Rightarrow> ModalState" where
  "onImageLoad lib node st =
     (let target = currentImage st node;
          st1 = st\<lparr>imgRef := Some node,
                   imgSize := \<lparr>swidth = iwidth target, sheight = iheight target\<rparr>\<rparr>
      in if naturalWidth target > 0 \<and> naturalHeight target > 0
         then st1\<lparr>crop := Some (centeredAspectCrop lib (aspect st)
                                  (naturalWidth target) (naturalHeight target))\<rparr>
         else st1)"

text \<open>The effect on \<open>[aspect]\<close>: the dialog is rendered with a new \<open>aspect\<close> prop.\<close>

definition onAspectRatioChanged :: "CropLib \<Rightarrow> real \<Rightarrow> ModalState \<Rightarrow> ModalState" where
  "onAspectRatioChanged lib newAspect st =
     (let st1 = st\<lparr>aspect := newAspect\<rparr> in
      case imgRef st1 of
        None \<Rightarrow> st1
      | Some node \<Rightarrow>
          if nodeNaturalWidth node > 0 \<and> nodeNaturalHeight node > 0
          then st1\<lparr>crop := Some (centeredAspectCrop lib newAspect
                                   (nodeNaturalWidth node) (nodeNaturalHeight node))\<rparr>
          else st1)"

text \<open>\<open>onChange={(_, percentCrop) => setCrop(percentCrop)}\<close>: of the two rectangles
  ReactCrop passes, the pixel one is dropped and the percent one stored.\<close>

definition onCropChange :: "Crop \<Rightarrow> Crop \<Rightarrow> ModalState \<Rightarrow> ModalState" where
  "onCropChange pixelCrop percentCrop st = st\<lparr>crop := Some percentCrop\<rparr>"


text \<open>
  \<open>handleSaveClick\<close>: the new state, the argument of \<open>onSave\<close> when it is called, and
  the lines written to the console. Nothing happens unless the node is there and the
  crop has a non-zero width and height.
\<close>

definition handleSaveClick ::
  "Browser \<Rightarrow> ModalState \<Rightarrow> ModalState \<times> EncodedImage option \<times> LogEntry list" where
  "handleSaveClick browser st =
     (case imgRef st of
        None \<Rightarrow> (st, None, [])
      | Some node \<Rightarrow>
          (case crop st of
             None \<Rightarrow> (st, None, [])
           | Some c \<Rightarrow>
               if cwidth c = 0 then (st, None, [])
               else if cheight c = 0 then (st, None, [])
               else
                 (case getCroppedImg browser (currentImage st node) c (modalMimeType st) of
                    Inr croppedImage \<Rightarrow> (st\<lparr>isSaving := False\<rparr>, Some croppedImage, [])
                  | Inl e \<Rightarrow> (st\<lparr>isSaving := False\<rparr>, None, [(''Cropping failed'', e)]))))"

text \<open>The dialog inside \<open>App\<close>: \<open>onSave\<close> is \<open>handleCropSave\<close>, and the console is the
  one console.\<close>

definition cropModalSave :: "Browser \<Rightarrow> ModalState \<Rightarrow> AppState \<Rightarrow> ModalState \<times> AppState" where
  "cropModalSave browser modal app =
     (let r = handleSaveClick browser modal;
          app1 = (case fst (snd r) of
                    None \<Rightarrow> app
                  | Some croppedImage \<Rightarrow> handleCropSave croppedImage app)
      in (fst r, app1\<lparr>console := console app1 @ snd (snd r)\<rparr>))"

section \<open>Upload validation\<close>

lemma uploadRejection_cases:
  "uploadRejection file =
     (if ftype file \<notin> set SUPPORTED_MIME_TYPES then Some unsupportedTypeMessage
      else if fsize file > 10 * MiB then Some fileTooLargeMessage else None)"
  by (simp add: uploadRejection_def MAX_FILE_SIZE_BYTES_def MAX_FILE_SIZE_MB_def MiB_def)

lemma handleFileUpload_rejected:
  "uploadRejection file = Some msg \<Longrightarrow> handleFileUpload file ty st = st\<lparr>error := Some msg\<rparr>"
  by (simp add: handleFileUpload_def)

lemma handleFileUpload_product:
  "uploadRejection file = None \<Longrightarrow> fread file = FileLoaded header payload \<Longrightarrow>
   handleFileUpload file Product st =
     st\<lparr>error := None,
        originalProductImage :=
          Some \<lparr>dataUrl = ''data:'' @ ftype file @ '';base64,'' @ payload,
                originalMimeType = ftype file\<rparr>,
        productImage := None,
        isCropModalOpen := True\<rparr>"
  by (simp add: handleFileUpload_def fileToBase64_def)

lemma handleFileUpload_style:
  "uploadRejection file = None \<Longrightarrow> fread file = FileLoaded header payload \<Longrightarrow>
   handleFileUpload file Style st =
     st\<lparr>error := None,
        styleReferenceImage := Some \<lparr>base64 = payload, mimeType = ftype file\<rparr>\<rparr>"
  by (simp add: handleFileUpload_def fileToBase64_def)

lemma handleFileUpload_unreadable:
  "uploadRejection file = None \<Longrightarrow> fread file = FileReadError \<Longrightarrow>
   handleFileUpload file ty st =
     st\<lparr>error := Some (''Error loading '' @ uploadTypeText ty
                         @ '' image: undefined. Please try a different file.''),
        console := console st @ [(''Failed to process '' @ uploadTypeText ty @ '' image:'',
                                  OtherThrown)]\<rparr>"
  by (simp add: handleFileUpload_def fileToBase64_def messageText_def)


lemma handleFileUpload_accepted_error:
  "uploadRejection file = None \<Longrightarrow>
   error (handleFileUpload file ty st) \<noteq> Some unsupportedTypeMessage
   \<and> error (handleFileUpload file ty st) \<noteq> Some fileTooLargeMessage"
proof (cases "fread file")
  case (FileLoaded header payload)
  assume "uploadRejection file = None"
  then show ?thesis
    by (cases ty)
       (simp_all add: handleFileUpload_product [OF _ FileLoaded]
          handleFileUpload_style [OF _ FileLoaded])
next
  case FileReadError
  assume "uploadRejection file = None"
  then show ?thesis
    by (simp add: handleFileUpload_unreadable [OF _ FileReadError] unsupportedTypeMessage_def
          fileTooLargeMessage_def)
qed

text \<open>
  C6. An upload is accepted exactly when its declared MIME type is one of image/jpeg,
  image/png, image/webp and its size is at most 10 MiB. Accepted means that
  \<open>handleFileUpload\<close> hands the file to the reader and stores what it reads: a product
  upload becomes the original image and opens the crop dialog, a style upload becomes
  the style reference, and \<open>error\<close> is cleared (a file the reader cannot read leaves the
  reader's error message instead). A file that violates a constraint changes nothing
  but \<open>error\<close>, the banner's text, which then names the constraint: the type message
  when the type is unsupported (this check comes first), the size message with its
  limit of 10MB when a file of a supported type is too large; and \<open>error\<close> holds one of
  these two messages exactly when the file violates a constraint. A 15 MiB file is
  rejected whatever its type, as too large when its type is supported, and a readable
  5 MiB JPEG is accepted.
\<close>

theorem C6_upload_validation:
  "(ftype file \<in> {''image/jpeg'', ''image/png'', ''image/webp''} \<and> fsize file \<le> 10 * MiB \<longrightarrow>
      (fread file = FileLoaded header payload \<longrightarrow>
         handleFileUpload file Product st =
           st\<lparr>error := None,
              originalProductImage :=
                Some \<lparr>dataUrl = ''data:'' @ ftype file @ '';base64,'' @ payload,
                      originalMimeType = ftype file\<rparr>,
              productImage := None,
              isCropModalOpen := True\<rparr>
         \<and> handleFileUpload file Style st =
             st\<lparr>error := None,
                styleReferenceImage := Some \<lparr>base64 = payload, mimeType = ftype file\<rparr>\<rparr>)
      \<and> (fread file = FileReadError \<longrightarrow>
           handleFileUpload file ty st =
             st\<lparr>error := Some (''Error loading '' @ uploadTypeText ty
                                 @ '' image: undefined. Please try a different file.''),
                console := console st
                  @ [(''Failed to process '' @ uploadTypeText ty @ '' image:'', OtherThrown)]\<rparr>))
   \<and> (ftype file \<notin> {''image/jpeg'', ''image/png'', ''image/webp''} \<longrightarrow>
        handleFileUpload file ty st =
          st\<lparr>error :=
               Some ''Unsupported file type. Please upload a JPEG, PNG, or WEBP image.''\<rparr>)
   \<and> (ftype file \<in> {''image/jpeg'', ''image/png'', ''image/webp''} \<and> fsize file > 10 * MiB \<longrightarrow>
        handleFileUpload file ty st =
          st\<lparr>error := Some ''File is too large. Please upload an image smaller than 10MB.''\<rparr>)
   \<and> (error (handleFileUpload file ty st)
          \<in> {Some ''Unsupported file type. Please upload a JPEG, PNG, or WEBP image.'',
              Some ''File is too large. Please upload an image smaller than 10MB.''}
        \<longleftrightarrow> \<not> (ftype file \<in> {''image/jpeg'', ''image/png'', ''image/webp''}
                 \<and> fsize file \<le> 10 * MiB))
   \<and> (fsize file = 15 * MiB \<longrightarrow>
        error (handleFileUpload file ty st)
          \<in> {Some ''Unsupported file type. Please upload a JPEG, PNG, or WEBP image.'',
              Some ''File is too large. Please upload an image smaller than 10MB.''})
   \<and> (fsize file = 15 * MiB \<and> ftype file \<in> {''image/jpeg'', ''image/png'', ''image/webp''} \<longrightarrow>
        handleFileUpload file ty st =
          st\<lparr>error := Some ''File is too large. Please upload an image smaller than 10MB.''\<rparr>)
   \<and> (fsize file = 5 * MiB \<and> ftype file = ''image/jpeg''
        \<and> fread file = FileLoaded header payload \<longrightarrow>
        handleFileUpload file Product st =
          st\<lparr>error := None,
             originalProductImage :=
               Some \<lparr>dataUrl = ''data:image/jpeg;base64,'' @ payload,
                     originalMimeType = ''image/jpeg''\<rparr>,
             productImage := None,
             isCropModalOpen := True\<rparr>)"
proof -
  define T where "T = (ftype file \<in> set SUPPORTED_MIME_TYPES)"
  define V where "V = (T \<and> fsize file \<le> 10 * MiB)"
  define U where "U = Some ''Unsupported file type. Please upload a JPEG, PNG, or WEBP image.''"
  define L where "L = Some ''File is too large. Please upload an image smaller than 10MB.''"
  have U: "U = Some unsupportedTypeMessage" by (simp add: U_def unsupportedTypeMessage_def)
  have L: "L = Some fileTooLargeMessage" by (simp add: L_def fileTooLargeMessage_def)
  have types: "ftype file \<in> {''image/jpeg'', ''image/png'', ''image/webp''} \<longleftrightarrow> T"
    unfolding T_def SUPPORTED_MIME_TYPES_def by simp
  have jpeg: "ftype file = ''image/jpeg'' \<Longrightarrow> T"
    unfolding T_def SUPPORTED_MIME_TYPES_def by simp
  have rej: "uploadRejection file =
     (if \<not> T then Some unsupportedTypeMessage
      else if fsize file > 10 * MiB then Some fileTooLargeMessage else None)"
    unfolding T_def by (rule uploadRejection_cases)
  have pos: "0 < MiB" by (simp add: MiB_def)
  have ok: "V \<Longrightarrow> uploadRejection file = None"
    by (simp add: rej V_def)
  have a1: "V \<Longrightarrow> fread file = FileLoaded header payload \<Longrightarrow>
      handleFileUpload file Product st =
           st\<lparr>error := None,
              originalProductImage :=
                Some \<lparr>dataUrl = ''data:'' @ ftype file @ '';base64,'' @ payload,
                      originalMimeType = ftype file\<rparr>,
              productImage := None,
              isCropModalOpen := True\<rparr>"
    by (rule handleFileUpload_product [OF ok])
  have a2: "V \<Longrightarrow> fread file = FileLoaded header payload \<Longrightarrow>
      handleFileUpload file Style st =
             st\<lparr>error := None,
                styleReferenceImage := Some \<lparr>base64 = payload, mimeType = ftype file\<rparr>\<rparr>"
    by (rule handleFileUpload_style [OF ok])
  have a3: "V \<Longrightarrow> fread file = FileReadError \<Longrightarrow>
      handleFileUpload file ty st =
             st\<lparr>error := Some (''Error loading '' @ uploadTypeText ty
                                 @ '' image: undefined. Please try a different file.''),
                console := console st
                  @ [(''Failed to process '' @ uploadTypeText ty @ '' image:'', OtherThrown)]\<rparr>"
    by (rule handleFileUpload_unreadable [OF ok])
  have b: "\<not> T \<Longrightarrow> handleFileUpload file ty st = st\<lparr>error := U\<rparr>"
    unfolding U by (rule handleFileUpload_rejected) (simp add: rej)
  have c: "T \<Longrightarrow> fsize file > 10 * MiB \<Longrightarrow> handleFileUpload file ty st = st\<lparr>error := L\<rparr>"
    unfolding L by (rule handleFileUpload_rejected) (simp add: rej)
  have b': "\<not> T \<Longrightarrow> error (handleFileUpload file ty st) = U"
    by (simp add: b)
  have c': "T \<Longrightarrow> fsize file > 10 * MiB \<Longrightarrow> error (handleFileUpload file ty st) = L"
    by (simp add: c)
  have d: "V \<Longrightarrow> error (handleFileUpload file ty st) \<noteq> U
                \<and> error (handleFileUpload file ty st) \<noteq> L"
    unfolding U L by (rule handleFileUpload_accepted_error [OF ok])
  have nv: "\<not> V \<longleftrightarrow> \<not> T \<or> (T \<and> fsize file > 10 * MiB)"
    unfolding V_def by auto
  have iff: "error (handleFileUpload file ty st) \<in> {U, L} \<longleftrightarrow> \<not> V"
    using b' c' d nv by auto
  have big: "fsize file = 15 * MiB \<Longrightarrow> fsize file > 10 * MiB"
    using pos by simp
  have small: "fsize file = 5 * MiB \<Longrightarrow> fsize file \<le> 10 * MiB"
    by simp
  have e: "fsize file = 15 * MiB \<Longrightarrow> error (handleFileUpload file ty st) \<in> {U, L}"
    using b' c' big by blast
  have f: "fsize file = 5 * MiB \<and> ftype file = ''image/jpeg''
             \<and> fread file = FileLoaded header payload \<Longrightarrow>
        handleFileUpload file Product st =
          st\<lparr>error := None,
             originalProductImage :=
               Some \<lparr>dataUrl = ''data:image/jpeg;base64,'' @ payload,
                     originalMimeType = ''image/jpeg''\<rparr>,
             productImage := None,
             isCropModalOpen := True\<rparr>"
  proof -
    assume h: "fsize file = 5 * MiB \<and> ftype file = ''image/jpeg''
             \<and> fread file = FileLoaded header payload"
    then have "V" using jpeg small by (simp add: V_def)
    from a1 [OF this] h show ?thesis by simp
  qed
  show ?thesis
    unfolding types U_def [symmetric] L_def [symmetric] V_def [symmetric]
    using a1 a2 a3 b c iff e f big by blast
qed

theorem C6_upload_validation_witness:
  "handleFileUpload
     \<lparr>ftype = ''image/jpeg'', fsize = 5 * MiB,
      fread = FileLoaded ''data:image/jpeg;base64'' ''AAAA''\<rparr> Product initialAppState
     = initialAppState
         \<lparr>error := None,
          originalProductImage :=
            Some \<lparr>dataUrl = ''data:image/jpeg;base64,AAAA'', originalMimeType = ''image/jpeg''\<rparr>,
          productImage := None,
          isCropModalOpen := True\<rparr>
   \<and> handleFileUpload
       \<lparr>ftype = ''image/png'', fsize = 10 * MiB,
        fread = FileLoaded ''data:image/png;base64'' ''BBBB''\<rparr> Style initialAppState
     = initialAppState
         \<lparr>error := None,
          styleReferenceImage := Some \<lparr>base64 = ''BBBB'', mimeType = ''image/png''\<rparr>\<rparr>
   \<and> handleFileUpload
       \<lparr>ftype = ''image/webp'', fsize = 1, fread = FileReadError\<rparr> Style initialAppState
     = initialAppState
         \<lparr>error := Some ''Error loading style image: undefined. Please try a different file.'',
          console := [(''Failed to process style image:'', OtherThrown)]\<rparr>
   \<and> handleFileUpload
       \<lparr>ftype = ''image/gif'', fsize = 1, fread = FileLoaded ''data:image/gif;base64'' ''CCCC''\<rparr>
       Product initialAppState
     = initialAppState
         \<lparr>error := Some ''Unsupported file type. Please upload a JPEG, PNG, or WEBP image.''\<rparr>
   \<and> handleFileUpload
       \<lparr>ftype = ''image/jpeg'', fsize = 15 * MiB,
        fread = FileLoaded ''data:image/jpeg;base64'' ''DDDD''\<rparr> Product initialAppState
     = initialAppState
         \<lparr>error := Some ''File is too large. Please upload an image smaller than 10MB.''\<rparr>"
proof -
  have pos: "0 < MiB" by (simp add: MiB_def)
  have c0: "console initialAppState = []" by (simp add: initialAppState_def)
  have 1: "handleFileUpload
     \<lparr>ftype = ''image/jpeg'', fsize = 5 * MiB,
      fread = FileLoaded ''data:image/jpeg;base64'' ''AAAA''\<rparr> Product initialAppState
     = initialAppState
         \<lparr>error := None,
          originalProductImage :=
            Some \<lparr>dataUrl = ''data:image/jpeg;base64,AAAA'', originalMimeType = ''image/jpeg''\<rparr>,
          productImage := None,
          isCropModalOpen := True\<rparr>"
    using C6_upload_validation
        [of "\<lparr>ftype = ''image/jpeg'', fsize = 5 * MiB,
               fread = FileLoaded ''data:image/jpeg;base64'' ''AAAA''\<rparr>"
            "''data:image/jpeg;base64''" "''AAAA''" initialAppState Product]
    by simp
  have 2: "handleFileUpload
       \<lparr>ftype = ''image/png'', fsize = 10 * MiB,
        fread = FileLoaded ''data:image/png;base64'' ''BBBB''\<rparr> Style initialAppState
     = initialAppState
         \<lparr>error := None,
          styleReferenceImage := Some \<lparr>base64 = ''BBBB'', mimeType = ''image/png''\<rparr>\<rparr>"
    using C6_upload_validation
        [of "\<lparr>ftype = ''image/png'', fsize = 10 * MiB,
               fread = FileLoaded ''data:image/png;base64'' ''BBBB''\<rparr>"
            "''data:image/png;base64''" "''BBBB''" initialAppState Style]
    by simp
  have 3: "handleFileUpload
       \<lparr>ftype = ''image/webp'', fsize = 1, fread = FileReadError\<rparr> Style initialAppState
     = initialAppState
         \<lparr>error := Some ''Error loading style image: undefined. Please try a different file.'',
          console := [(''Failed to process style image:'', OtherThrown)]\<rparr>"
    using pos C6_upload_validation
        [of "\<lparr>ftype = ''image/webp'', fsize = 1, fread = FileReadError\<rparr>"
            "[]" "[]" initialAppState Style]
    by (simp add: c0)
  have 4: "handleFileUpload
       \<lparr>ftype = ''image/gif'', fsize = 1, fread = FileLoaded ''data:image/gif;base64'' ''CCCC''\<rparr>
       Product initialAppState
     = initialAppState
         \<lparr>error := Some ''Unsupported file type. Please upload a JPEG, PNG, or WEBP image.''\<rparr>"
    using C6_upload_validation
        [of "\<lparr>ftype = ''image/gif'', fsize = 1,
               fread = FileLoaded ''data:image/gif;base64'' ''CCCC''\<rparr>"
            "[]" "[]" initialAppState Product]
    by simp
  have 5: "handleFileUpload
       \<lparr>ftype = ''image/jpeg'', fsize = 15 * MiB,
        fread = FileLoaded ''data:image/jpeg;base64'' ''DDDD''\<rparr> Product initialAppState
     = initialAppState
         \<lparr>error := Some ''File is too large. Please upload an image smaller than 10MB.''\<rparr>"
    using pos C6_upload_validation
        [of "\<lparr>ftype = ''image/jpeg'', fsize = 15 * MiB,
               fread = FileLoaded ''data:image/jpeg;base64'' ''DDDD''\<rparr>"
            "[]" "[]" initialAppState Product]
    by simp
  from 1 2 3 4 5 show ?thesis by blast
qed

text \<open>
  C10. A rejected product or style upload (unsupported type, or size above the limit)
  changes nothing but \<open>error\<close>: the product image, the original, the style reference,
  the prompt, the generated image and every other field are as before, and \<open>error\<close>
  holds the message of the rejection.
\<close>

theorem C10_rejected_upload_frame:
  "ftype file \<notin> set SUPPORTED_MIME_TYPES \<or> fsize file > MAX_FILE_SIZE_BYTES \<Longrightarrow>
   \<exists>msg. handleFileUpload file ty st = st\<lparr>error := Some msg\<rparr>
         \<and> msg \<in> {unsupportedTypeMessage, fileTooLargeMessage}
         \<and> productImage (handleFileUpload file ty st) = productImage st
         \<and> originalProductImage (handleFileUpload file ty st) = originalProductImage st
         \<and> styleReferenceImage (handleFileUpload file ty st) = styleReferenceImage st
         \<and> prompt (handleFileUpload file ty st) = prompt st
         \<and> generatedImage (handleFileUpload file ty st) = generatedImage st"
proof -
  assume "ftype file \<notin> set SUPPORTED_MIME_TYPES \<or> fsize file > MAX_FILE_SIZE_BYTES"
  then have "uploadRejection file = Some unsupportedTypeMessage
           \<or> uploadRejection file = Some fileTooLargeMessage"
    by (simp add: uploadRejection_def)
  then show ?thesis
  proof
    assume r: "uploadRejection file = Some unsupportedTypeMessage"
    show ?thesis
      by (rule exI [of _ unsupportedTypeMessage]) (simp add: handleFileUpload_rejected [OF r])
  next
    assume r: "uploadRejection file = Some fileTooLargeMessage"
    show ?thesis
      by (rule exI [of _ fileTooLargeMessage]) (simp add: handleFileUpload_rejected [OF r])
  qed
qed

theorem C10_rejected_upload_frame_witness:
  "\<exists>msg. handleFileUpload \<lparr>ftype = ''image/gif'', fsize = 1, fread = FileReadError\<rparr> Product
       (initialAppState\<lparr>generatedImage := Some ''data:image/png;base64,AAAA'', prompt := ''p''\<rparr>)
   = initialAppState\<lparr>generatedImage := Some ''data:image/png;base64,AAAA'', prompt := ''p'',
                       error := Some msg\<rparr>"
proof -
  have h: "ftype \<lparr>ftype = ''image/gif'', fsize = 1, fread = FileReadError\<rparr>
             \<notin> set SUPPORTED_MIME_TYPES
           \<or> fsize \<lparr>ftype = ''image/gif'', fsize = 1, fread = FileReadError\<rparr>
               > MAX_FILE_SIZE_BYTES"
    by (simp add: SUPPORTED_MIME_TYPES_def)
  from C10_rejected_upload_frame [OF h, of Product
         "initialAppState\<lparr>generatedImage := Some ''data:image/png;base64,AAAA'',
                           prompt := ''p''\<rparr>"]
  show ?thesis by auto
qed

section \<open>The image-edit call\<close>

lemma noImageMessage_lower:
  "toLowerCase noImageMessage =
     ''the ai model did not return an image. try adjusting your prompt or using a different image.''"
  by code_simp

lemma noImageMessage_kept:
  "fst (handleGeminiError (ErrorObj noImageMessage) ctx) = ErrorObj noImageMessage"
proof -
  have k1: "js_includes (toLowerCase noImageMessage) ''api key not valid'' = False"
    unfolding noImageMessage_lower by (simp add: startsWith_def)
  have k2: "js_includes (toLowerCase noImageMessage) ''rate limit'' = False"
    unfolding noImageMessage_lower by (simp add: startsWith_def)
  have k3: "js_includes (toLowerCase noImageMessage) ''did not return an image'' = True"
    unfolding noImageMessage_lower by (simp add: startsWith_def)
  show ?thesis
    by (simp add: handleGeminiError_def k1 k2 k3)
qed

lemma handleGeminiError_log:
  "snd (handleGeminiError err ctx) = [(''Error during '' @ ctx @ '':'', err)]"
  by (simp add: handleGeminiError_def)

text \<open>The \<open>TypeError\<close> of a read of \<open>content.parts\<close> without \<open>content\<close> holds none of the
  three phrases, so \<open>handleGeminiError\<close> replaces it by the generic error.\<close>

lemma cannotReadParts_generic:
  "fst (handleGeminiError (ErrorObj (cannotReadProperty ''parts'')) ctx)
     = ErrorObj (unexpectedErrorMessage ctx)"
proof -
  have k1: "js_includes (toLowerCase (cannotReadProperty ''parts'')) ''api key not valid'' = False"
    by code_simp
  have k2: "js_includes (toLowerCase (cannotReadProperty ''parts'')) ''rate limit'' = False"
    by code_simp
  have k3: "js_includes (toLowerCase (cannotReadProperty ''parts'')) ''did not return an image''
              = False"
    by code_simp
  show ?thesis
    by (simp add: handleGeminiError_def k1 k2 k3)
qed

lemma unexpected_not_noImage:
  "unexpectedErrorMessage ''image generation'' \<noteq> noImageMessage"
  by (simp add: unexpectedErrorMessage_def noImageMessage_def)

lemma findImagePart_skipped:
  "\<forall>q \<in> set ps. isSkippedPart q \<Longrightarrow> findImagePart ps = Inr None"
  by (induction ps) (auto simp: isSkippedPart_def split: option.splits)

lemma findImagePart_first:
  "\<forall>q \<in> set pre. isSkippedPart q \<Longrightarrow> isImagePart part \<Longrightarrow>
   findImagePart (pre @ part # post) = Inr (Some (partUrl part))"
  by (induction pre)
     (auto simp: isSkippedPart_def isImagePart_def partUrl_def templateText_def
           split: option.splits)

lemma editProductImage_response:
  "generateContent (editRequest img p s) = Inr response \<Longrightarrow>
   editProductImage generateContent img p s =
     (case firstImageUrl response of
        Inr found \<Rightarrow>
          (case found of
             Some imageUrl \<Rightarrow> (Inr imageUrl, [])
           | None \<Rightarrow> (Inl (ErrorObj noImageMessage),
                      [(''Error during image generation:'', ErrorObj noImageMessage)]))
      | Inl thrown \<Rightarrow>
          (Inl (fst (handleGeminiError thrown ''image generation'')),
           [(''Error during image generation:'', thrown)]))"
  by (simp add: editProductImage_def noImageMessage_kept handleGeminiError_log
        split: option.splits sum.splits)

text \<open>
  What holds of the claim: on a response whose first candidate has \<open>content.parts\<close>,
  the data URL of the first image part is returned when every part in front of it is
  passed over; and when there is no candidate, or every part is passed over, the call
  throws the no-image error, which \<open>handleGeminiError\<close> passes on unchanged.
\<close>

lemma editProductImage_well_formed:
  assumes remote: "generateContent (editRequest img p s) = Inr response"
  shows "(candidates response = Some (c # cs) \<and> content c = Some ct
            \<and> contentParts ct = Some (pre @ part # post)
            \<and> (\<forall>q \<in> set pre. isSkippedPart q) \<and> isImagePart part
          \<longrightarrow> fst (editProductImage generateContent img p s) = Inr (partUrl part))
       \<and> ((candidates response = None \<or> candidates response = Some []
            \<or> (candidates response = Some (c # cs) \<and> content c = Some ct
                \<and> contentParts ct = Some ps \<and> (\<forall>q \<in> set ps. isSkippedPart q)))
          \<longrightarrow> fst (editProductImage generateContent img p s) = Inl (ErrorObj noImageMessage))"
proof (intro conjI impI)
  note run = editProductImage_response [of generateContent img p s response, OF remote]
  assume "candidates response = Some (c # cs) \<and> content c = Some ct
            \<and> contentParts ct = Some (pre @ part # post)
            \<and> (\<forall>q \<in> set pre. isSkippedPart q) \<and> isImagePart part"
  then have "firstImageUrl response = Inr (Some (partUrl part))"
    by (simp add: firstImageUrl_def findImagePart_first)
  then show "fst (editProductImage generateContent img p s) = Inr (partUrl part)"
    by (simp add: run)
next
  note run = editProductImage_response [of generateContent img p s response, OF remote]
  assume h: "candidates response = None \<or> candidates response = Some []
            \<or> (candidates response = Some (c # cs) \<and> content c = Some ct
                \<and> contentParts ct = Some ps \<and> (\<forall>q \<in> set ps. isSkippedPart q))"
  then have none: "firstImageUrl response = Inr None"
    by (auto simp: firstImageUrl_def findImagePart_skipped)
  show "fst (editProductImage generateContent img p s) = Inl (ErrorObj noImageMessage)"
    by (simp add: run none)
qed

text \<open>
  C7. The claim fails on a response whose first candidate has no \<open>content\<close>, as the
  service sends when it stops a candidate for safety: \<open>{candidates: [{finishReason:
  'SAFETY'}]}\<close>. The response holds no image part, yet the call does not fail with the
  no-image error: the unguarded read \<open>candidates[0].content.parts\<close> throws a
  \<open>TypeError\<close> inside the \<open>try\<close>, and \<open>handleGeminiError\<close> replaces it by the generic
  "An unexpected error occurred during image generation ...".
\<close>

theorem C7_no_content_generic_error:
  "firstImageUrl \<lparr>candidates = Some [\<lparr>content = None\<rparr>]\<rparr>
     = Inl (ErrorObj (cannotReadProperty ''parts''))
   \<and> editProductImage (\<lambda>request. Inr \<lparr>candidates = Some [\<lparr>content = None\<rparr>]\<rparr>) img p s
     = (Inl (ErrorObj ''An unexpected error occurred during image generation. Please check the console for details.''),
        [(''Error during image generation:'', ErrorObj (cannotReadProperty ''parts''))])
   \<and> fst (editProductImage (\<lambda>request. Inr \<lparr>candidates = Some [\<lparr>content = None\<rparr>]\<rparr>) img p s)
       \<noteq> Inl (ErrorObj noImageMessage)"
proof -
  have f: "firstImageUrl \<lparr>candidates = Some [\<lparr>content = None\<rparr>]\<rparr>
             = Inl (ErrorObj (cannotReadProperty ''parts''))"
    by (simp add: firstImageUrl_def)
  have g: "unexpectedErrorMessage ''image generation''
             = ''An unexpected error occurred during image generation. Please check the console for details.''"
    by (simp add: unexpectedErrorMessage_def)
  have e: "editProductImage (\<lambda>request. Inr \<lparr>candidates = Some [\<lparr>content = None\<rparr>]\<rparr>) img p s
     = (Inl (ErrorObj (unexpectedErrorMessage ''image generation'')),
        [(''Error during image generation:'', ErrorObj (cannotReadProperty ''parts''))])"
    by (simp add: editProductImage_response
          [of "\<lambda>request. Inr \<lparr>candidates = Some [\<lparr>content = None\<rparr>]\<rparr>" img p s
              "\<lparr>candidates = Some [\<lparr>content = None\<rparr>]\<rparr>"] f cannotReadParts_generic)
  have n: "fst (editProductImage (\<lambda>request. Inr \<lparr>candidates = Some [\<lparr>content = None\<rparr>]\<rparr>) img p s)
       \<noteq> Inl (ErrorObj noImageMessage)"
    unfolding e using unexpected_not_noImage by simp
  from f e [unfolded g] n show ?thesis by blast
qed

text \<open>The other two unguarded reads end in the same generic error: a first candidate
  whose \<open>content\<close> has no \<open>parts\<close>, and inline data without \<open>mimeType\<close>.\<close>

lemma other_unguarded_reads_generic:
  "fst (editProductImage
          (\<lambda>request. Inr \<lparr>candidates = Some [\<lparr>content = Some \<lparr>contentParts = None\<rparr>\<rparr>]\<rparr>)
          img p s)
     = Inl (ErrorObj (unexpectedErrorMessage ''image generation''))
   \<and> fst (editProductImage
          (\<lambda>request. Inr \<lparr>candidates = Some [\<lparr>content = Some \<lparr>contentParts = Some
              [\<lparr>partText = None,
                inlineData = Some \<lparr>inlineBytes = Some ''QUJD'', inlineMimeType = None\<rparr>\<rparr>]\<rparr>\<rparr>]\<rparr>)
          img p s)
     = Inl (ErrorObj (unexpectedErrorMessage ''image generation''))"
proof -
  have a1: "js_includes (toLowerCase partsNotIterable) ''api key not valid'' = False"
    by code_simp
  have a2: "js_includes (toLowerCase partsNotIterable) ''rate limit'' = False"
    by code_simp
  have a3: "js_includes (toLowerCase partsNotIterable) ''did not return an image'' = False"
    by code_simp
  have b1: "js_includes (toLowerCase (cannotReadProperty ''startsWith'')) ''api key not valid''
              = False"
    by code_simp
  have b2: "js_includes (toLowerCase (cannotReadProperty ''startsWith'')) ''rate limit'' = False"
    by code_simp
  have b3: "js_includes (toLowerCase (cannotReadProperty ''startsWith''))
              ''did not return an image'' = False"
    by code_simp
  have a: "fst (handleGeminiError (ErrorObj partsNotIterable) ''image generation'')
             = ErrorObj (unexpectedErrorMessage ''image generation'')"
    by (simp add: handleGeminiError_def a1 a2 a3)
  have b: "fst (handleGeminiError (ErrorObj (cannotReadProperty ''startsWith'')) ''image generation'')
             = ErrorObj (unexpectedErrorMessage ''image generation'')"
    by (simp add: handleGeminiError_def b1 b2 b3)
  show ?thesis
    by (simp add: editProductImage_def firstImageUrl_def a b)
qed






section \<open>The crop dialog's transitions\<close>

lemma crop_onAspectRatioChanged:
  "imgRef st = Some node \<Longrightarrow> 0 < nodeNaturalWidth node \<Longrightarrow> 0 < nodeNaturalHeight node \<Longrightarrow>
   onAspectRatioChanged lib a st =
     st\<lparr>aspect := a,
        crop := Some (centeredAspectCrop lib a (nodeNaturalWidth node) (nodeNaturalHeight node))\<rparr>"
  by (simp add: onAspectRatioChanged_def)

lemma crop_onImageLoad:
  "0 < nodeNaturalWidth node \<Longrightarrow> 0 < nodeNaturalHeight node \<Longrightarrow>
   crop (onImageLoad lib node st) =
     Some (centeredAspectCrop lib (aspect st) (nodeNaturalWidth node) (nodeNaturalHeight node))"
  by (simp add: onImageLoad_def currentImage_def Let_def)

lemma crop_onImageLoad_unloaded:
  "nodeNaturalWidth node = 0 \<or> nodeNaturalHeight node = 0 \<Longrightarrow>
   crop (onImageLoad lib node st) = crop st"
  by (auto simp: onImageLoad_def currentImage_def Let_def)


text \<open>
  C4. For every loaded image (the node is there and its natural size is positive) and
  every state of the dialog, whatever crop it holds, a change of the aspect ratio sets
  the crop to the value of the very expression \<open>onImageLoad\<close> evaluates, for the new
  aspect and the image's natural size. The crop held before, a dragged one included,
  does not enter the result, and the same change made twice gives the state of the
  first. This holds for any pair of library functions.
\<close>

theorem C4_aspect_change_resets_crop:
  assumes "imgRef st = Some node" and "0 < nodeNaturalWidth node" and "0 < nodeNaturalHeight node"
  shows "crop (onAspectRatioChanged lib a st)
           = crop (onImageLoad lib node (st0\<lparr>aspect := a\<rparr>))
       \<and> crop (onAspectRatioChanged lib a st)
           = Some (centeredAspectCrop lib a (nodeNaturalWidth node) (nodeNaturalHeight node))
       \<and> crop (onAspectRatioChanged lib a (st\<lparr>crop := c\<rparr>)) = crop (onAspectRatioChanged lib a st)
       \<and> onAspectRatioChanged lib a (onCropChange pixelCrop percentCrop st)
           = onAspectRatioChanged lib a st
       \<and> onAspectRatioChanged lib a (onAspectRatioChanged lib a st) = onAspectRatioChanged lib a st"
proof -
  note ch = crop_onAspectRatioChanged [OF _ assms(2,3)]
  have 1: "onAspectRatioChanged lib a st =
     st\<lparr>aspect := a,
        crop := Some (centeredAspectCrop lib a (nodeNaturalWidth node) (nodeNaturalHeight node))\<rparr>"
    by (rule ch) (rule assms(1))
  have 2: "onAspectRatioChanged lib a (st\<lparr>crop := c\<rparr>) =
     st\<lparr>crop := c, aspect := a,
        crop := Some (centeredAspectCrop lib a (nodeNaturalWidth node) (nodeNaturalHeight node))\<rparr>"
    by (rule ch) (simp add: assms(1))
  have 3: "onAspectRatioChanged lib a (onCropChange pixelCrop percentCrop st) =
     (onCropChange pixelCrop percentCrop st)\<lparr>aspect := a,
        crop := Some (centeredAspectCrop lib a (nodeNaturalWidth node) (nodeNaturalHeight node))\<rparr>"
    by (rule ch) (simp add: assms(1) onCropChange_def)
  have 4: "onAspectRatioChanged lib a (onAspectRatioChanged lib a st) =
     (onAspectRatioChanged lib a st)\<lparr>aspect := a,
        crop := Some (centeredAspectCrop lib a (nodeNaturalWidth node) (nodeNaturalHeight node))\<rparr>"
    by (rule ch) (simp add: 1 assms(1))
  have 5: "crop (onImageLoad lib node (st0\<lparr>aspect := a\<rparr>))
            = Some (centeredAspectCrop lib a (nodeNaturalWidth node) (nodeNaturalHeight node))"
    by (simp add: crop_onImageLoad [OF assms(2,3)])
  have a: "crop (onAspectRatioChanged lib a st)
           = crop (onImageLoad lib node (st0\<lparr>aspect := a\<rparr>))"
    by (simp add: 1 5)
  have b: "crop (onAspectRatioChanged lib a st)
           = Some (centeredAspectCrop lib a (nodeNaturalWidth node) (nodeNaturalHeight node))"
    by (simp add: 1)
  have c: "crop (onAspectRatioChanged lib a (st\<lparr>crop := c\<rparr>)) = crop (onAspectRatioChanged lib a st)"
    by (simp add: 1 2)
  have d: "onAspectRatioChanged lib a (onCropChange pixelCrop percentCrop st)
           = onAspectRatioChanged lib a st"
    unfolding 3 1 by (simp add: onCropChange_def)
  have e: "onAspectRatioChanged lib a (onAspectRatioChanged lib a st) = onAspectRatioChanged lib a st"
    unfolding 4 by (simp add: 1)
  from a b c d e show ?thesis by blast
qed

theorem C4_aspect_change_resets_crop_witness:
  "crop (onAspectRatioChanged reactImageCrop (16 / 9)
           ((initialModalState 1 ''image/jpeg'')
              \<lparr>imgRef := Some \<lparr>nodeNaturalWidth = 1000, nodeNaturalHeight = 1000,
                                constrainedWidth = 500, constrainedHeight = 500\<rparr>,
               crop := Some \<lparr>cunit = Percent, cx = 3, cy = 7, cwidth = 40, cheight = 40\<rparr>\<rparr>))
     = crop (onImageLoad reactImageCrop
               \<lparr>nodeNaturalWidth = 1000, nodeNaturalHeight = 1000,
                constrainedWidth = 500, constrainedHeight = 500\<rparr>
               ((initialModalState 1 ''image/jpeg'')\<lparr>aspect := 16 / 9\<rparr>))
   \<and> onAspectRatioChanged reactImageCrop (16 / 9)
       (onAspectRatioChanged reactImageCrop (16 / 9)
          ((initialModalState 1 ''image/jpeg'')
             \<lparr>imgRef := Some \<lparr>nodeNaturalWidth = 1000, nodeNaturalHeight = 1000,
                               constrainedWidth = 500, constrainedHeight = 500\<rparr>,
              crop := Some \<lparr>cunit = Percent, cx = 3, cy = 7, cwidth = 40, cheight = 40\<rparr>\<rparr>))
     = onAspectRatioChanged reactImageCrop (16 / 9)
         ((initialModalState 1 ''image/jpeg'')
            \<lparr>imgRef := Some \<lparr>nodeNaturalWidth = 1000, nodeNaturalHeight = 1000,
                              constrainedWidth = 500, constrainedHeight = 500\<rparr>,
             crop := Some \<lparr>cunit = Percent, cx = 3, cy = 7, cwidth = 40, cheight = 40\<rparr>\<rparr>)"
proof -
  let ?N = "\<lparr>nodeNaturalWidth = 1000, nodeNaturalHeight = 1000,
             constrainedWidth = 500, constrainedHeight = 500\<rparr>"
  let ?S = "(initialModalState 1 ''image/jpeg'')
              \<lparr>imgRef := Some ?N,
               crop := Some \<lparr>cunit = Percent, cx = 3, cy = 7, cwidth = 40, cheight = 40\<rparr>\<rparr>"
  have r: "imgRef ?S = Some ?N" by simp
  have w: "0 < nodeNaturalWidth ?N" and h: "0 < nodeNaturalHeight ?N" by simp_all
  from C4_aspect_change_resets_crop [OF r w h, of reactImageCrop "16 / 9"
         "initialModalState 1 ''image/jpeg''"]
  show ?thesis by blast
qed



subsection \<open>The initial crop\<close>

lemma getAspectRatioValue_pos: "0 < getAspectRatioValue ar"
  by (cases ar) (simp_all add: getAspectRatioValue_def)

lemma centeredAspectCrop_reactImageCrop:
  "centeredAspectCrop reactImageCrop a nw nh =
     (let w = min (9 / 10 * real nw) (9 / 10 * real nh * a) in
      \<lparr>cunit = Percent,
       cx = (100 - w / real nw * 100) / 2,
       cy = (100 - w / a / real nh * 100) / 2,
       cwidth = w / real nw * 100,
       cheight = w / a / real nh * 100\<rparr>)"
  by (simp add: centeredAspectCrop_def reactImageCrop_def makeAspectCrop_def centerCrop_def Let_def)

lemma centered_rectangle:
  fixes W H a dW dH :: real
  assumes W: "0 < W" and H: "0 < H" and a: "0 < a" and dW: "0 < dW" and dH: "0 < dH"
  defines "w \<equiv> min (9 / 10 * W) (9 / 10 * H * a)"
  defines "pw \<equiv> (w / W * 100) * dW / 100"
  defines "ph \<equiv> (w / a / H * 100) * dH / 100"
  defines "x \<equiv> ((100 - w / W * 100) / 2) * dW / 100"
  defines "y \<equiv> ((100 - w / a / H * 100) / 2) * dH / 100"
  shows "0 < pw" "0 < ph" "x + pw / 2 = dW / 2" "y + ph / 2 = dH / 2"
    "pw \<le> 9 / 10 * dW" "ph \<le> 9 / 10 * dH" "0 \<le> x" "x + pw \<le> dW" "0 \<le> y" "y + ph \<le> dH"
    "dW * H = dH * W \<Longrightarrow> pw / ph = a"
proof -
  have wpos: "0 < w" using W H a by (simp add: w_def)
  have w1: "w \<le> 9 / 10 * W" by (simp add: w_def)
  have w2: "w \<le> 9 / 10 * H * a" by (simp add: w_def)
  have fw: "w / W \<le> 9 / 10" using w1 W by (simp add: pos_divide_le_eq)
  have fh: "w / a / H \<le> 9 / 10" using w2 a H by (simp add: pos_divide_le_eq mult.commute mult.left_commute)
  have fwpos: "0 < w / W" using wpos W by simp
  have fhpos: "0 < w / a / H" using wpos a H by simp
  have pw: "pw = (w / W) * dW" by (simp add: pw_def)
  have ph: "ph = (w / a / H) * dH" by (simp add: ph_def)
  have x: "x = (dW - pw) / 2" by (simp add: x_def pw_def field_simps)
  have y: "y = (dH - ph) / 2" by (simp add: y_def ph_def field_simps)
  show "0 < pw" unfolding pw using fwpos dW by (rule mult_pos_pos)
  show php0: "0 < ph" unfolding ph using fhpos dH by (rule mult_pos_pos)
  show "x + pw / 2 = dW / 2" by (simp add: x field_simps)
  show "y + ph / 2 = dH / 2" by (simp add: y field_simps)
  have dW0: "0 \<le> dW" and dH0: "0 \<le> dH" using dW dH by simp_all
  show pw9: "pw \<le> 9 / 10 * dW" unfolding pw using fw dW0 by (rule mult_right_mono)
  show ph9: "ph \<le> 9 / 10 * dH" unfolding ph using fh dH0 by (rule mult_right_mono)
  show "0 \<le> x" using pw9 dW by (simp add: x)
  show "x + pw \<le> dW" using pw9 dW by (simp add: x field_simps)
  show "0 \<le> y" using ph9 dH by (simp add: y)
  show "y + ph \<le> dH" using ph9 dH by (simp add: y field_simps)
  show "pw / ph = a" if same: "dW * H = dH * W"
  proof -
    have "dW = dH * W / H" using same H by (simp add: field_simps)
    then have "pw = (w / W) * (dH * W / H)" by (simp add: pw)
    also have "\<dots> = w * dH / H" using W by simp
    finally have e1: "pw = w * dH / H" .
    have e2: "a * ph = w * dH / H" using a by (simp add: ph)
    have php: "ph \<noteq> 0" using php0 by simp
    have "pw = a * ph" using e1 e2 by simp
    then show ?thesis using php by simp
  qed
qed

text \<open>
  C3. With the library functions modelled from the spec: when the natural width and
  height are positive, the image-load transition sets a crop which, read in pixels of
  any displayed size \<open>dW\<close> by \<open>dH\<close>, is centred, is at most 90% of the extent in each
  direction, lies within the displayed bounds, and has the target aspect ratio as its
  width to height ratio whenever the displayed size is proportional to the natural
  size; this for each of the three aspect ratios. When the natural width or height is
  zero no crop is set (for any library functions): the crop is as before, and none when
  the dialog has just been opened.
\<close>

theorem C3_initial_crop:
  assumes asp: "aspect st = getAspectRatioValue ar" and dW: "0 < dW" and dH: "0 < dH"
  shows "(0 < nodeNaturalWidth node \<and> 0 < nodeNaturalHeight node \<longrightarrow>
           (\<exists>c x y w h.
              crop (onImageLoad reactImageCrop node st) = Some c
              \<and> cropInPixels c dW dH = (x, y, w, h)
              \<and> 0 < w \<and> 0 < h
              \<and> x + w / 2 = dW / 2 \<and> y + h / 2 = dH / 2
              \<and> w \<le> 9 / 10 * dW \<and> h \<le> 9 / 10 * dH
              \<and> 0 \<le> x \<and> x + w \<le> dW \<and> 0 \<le> y \<and> y + h \<le> dH
              \<and> (dW * real (nodeNaturalHeight node) = dH * real (nodeNaturalWidth node)
                   \<longrightarrow> w / h = getAspectRatioValue ar)))
       \<and> (nodeNaturalWidth node = 0 \<or> nodeNaturalHeight node = 0 \<longrightarrow>
            crop (onImageLoad lib node st) = crop st
            \<and> crop (onImageLoad lib node (initialModalState (getAspectRatioValue ar) mime)) = None)"
proof (intro conjI impI)
  assume nat: "0 < nodeNaturalWidth node \<and> 0 < nodeNaturalHeight node"
  define W where "W = real (nodeNaturalWidth node)"
  define H where "H = real (nodeNaturalHeight node)"
  define a where "a = getAspectRatioValue ar"
  define w0 where "w0 = min (9 / 10 * W) (9 / 10 * H * a)"
  have W: "0 < W" and H: "0 < H" using nat by (simp_all add: W_def H_def)
  have a: "0 < a" unfolding a_def by (rule getAspectRatioValue_pos)
  define c where "c = \<lparr>cunit = Percent, cx = (100 - w0 / W * 100) / 2,
      cy = (100 - w0 / a / H * 100) / 2, cwidth = w0 / W * 100, cheight = w0 / a / H * 100\<rparr>"
  have loaded: "crop (onImageLoad reactImageCrop node st) = Some c"
    using nat
    by (simp add: crop_onImageLoad centeredAspectCrop_reactImageCrop asp c_def w0_def W_def H_def
          a_def Let_def)
  have pix: "cropInPixels c dW dH =
     ((100 - w0 / W * 100) / 2 * dW / 100, (100 - w0 / a / H * 100) / 2 * dH / 100,
      w0 / W * 100 * dW / 100, w0 / a / H * 100 * dH / 100)"
    by (simp add: cropInPixels_def c_def)
  note r = centered_rectangle [OF W H a dW dH, folded w0_def]
  show "\<exists>c x y w h.
              crop (onImageLoad reactImageCrop node st) = Some c
              \<and> cropInPixels c dW dH = (x, y, w, h)
              \<and> 0 < w \<and> 0 < h
              \<and> x + w / 2 = dW / 2 \<and> y + h / 2 = dH / 2
              \<and> w \<le> 9 / 10 * dW \<and> h \<le> 9 / 10 * dH
              \<and> 0 \<le> x \<and> x + w \<le> dW \<and> 0 \<le> y \<and> y + h \<le> dH
              \<and> (dW * real (nodeNaturalHeight node) = dH * real (nodeNaturalWidth node)
                   \<longrightarrow> w / h = getAspectRatioValue ar)"
    apply (rule exI [of _ c])
    apply (rule exI [of _ "(100 - w0 / W * 100) / 2 * dW / 100"])
    apply (rule exI [of _ "(100 - w0 / a / H * 100) / 2 * dH / 100"])
    apply (rule exI [of _ "w0 / W * 100 * dW / 100"])
    apply (rule exI [of _ "w0 / a / H * 100 * dH / 100"])
    apply (intro conjI impI)
                 apply (rule loaded)
                apply (rule pix)
               apply (rule r)+
    apply (fold W_def H_def a_def)
    apply (erule r)
    done
next
  assume z: "nodeNaturalWidth node = 0 \<or> nodeNaturalHeight node = 0"
  show "crop (onImageLoad lib node st) = crop st"
    using z by (rule crop_onImageLoad_unloaded)
  show "crop (onImageLoad lib node (initialModalState (getAspectRatioValue ar) mime)) = None"
    using z by (simp add: crop_onImageLoad_unloaded initialModalState_def)
qed

theorem C3_initial_crop_witness:
  "(\<exists>c x y w h.
      crop (onImageLoad reactImageCrop
              \<lparr>nodeNaturalWidth = 1000, nodeNaturalHeight = 1000,
               constrainedWidth = 500, constrainedHeight = 500\<rparr>
              (initialModalState (getAspectRatioValue LANDSCAPE) ''image/jpeg'')) = Some c
      \<and> cropInPixels c 500 500 = (x, y, w, h)
      \<and> 0 < w \<and> 0 < h \<and> x + w / 2 = 250 \<and> y + h / 2 = 250
      \<and> w \<le> 450 \<and> h \<le> 450 \<and> 0 \<le> x \<and> x + w \<le> 500 \<and> 0 \<le> y \<and> y + h \<le> 500
      \<and> w / h = 16 / 9)
   \<and> crop (onImageLoad reactImageCrop
              \<lparr>nodeNaturalWidth = 0, nodeNaturalHeight = 0,
               constrainedWidth = 500, constrainedHeight = 500\<rparr>
              (initialModalState (getAspectRatioValue LANDSCAPE) ''image/jpeg'')) = None"
proof -
  have a: "aspect (initialModalState (getAspectRatioValue LANDSCAPE) ''image/jpeg'')
             = getAspectRatioValue LANDSCAPE"
    by (simp add: initialModalState_def)
  have p: "(0::real) < 500" by simp
  have v: "getAspectRatioValue LANDSCAPE = 16 / 9" by (simp add: getAspectRatioValue_def)
  from C3_initial_crop [OF a p p,
         of "\<lparr>nodeNaturalWidth = 1000, nodeNaturalHeight = 1000,
               constrainedWidth = 500, constrainedHeight = 500\<rparr>" reactImageCrop "''image/jpeg''"]
  have 1: "\<exists>c x y w h.
      crop (onImageLoad reactImageCrop
              \<lparr>nodeNaturalWidth = 1000, nodeNaturalHeight = 1000,
               constrainedWidth = 500, constrainedHeight = 500\<rparr>
              (initialModalState (getAspectRatioValue LANDSCAPE) ''image/jpeg'')) = Some c
      \<and> cropInPixels c 500 500 = (x, y, w, h)
      \<and> 0 < w \<and> 0 < h \<and> x + w / 2 = 250 \<and> y + h / 2 = 250
      \<and> w \<le> 450 \<and> h \<le> 450 \<and> 0 \<le> x \<and> x + w \<le> 500 \<and> 0 \<le> y \<and> y + h \<le> 500
      \<and> w / h = 16 / 9"
    by (simp add: v)
  have z: "nodeNaturalWidth \<lparr>nodeNaturalWidth = 0, nodeNaturalHeight = 0,
               constrainedWidth = 500, constrainedHeight = 500\<rparr> = 0
           \<or> nodeNaturalHeight \<lparr>nodeNaturalWidth = 0, nodeNaturalHeight = 0,
               constrainedWidth = 500, constrainedHeight = 500\<rparr> = 0"
    by simp
  from z C3_initial_crop [OF a p p,
         of "\<lparr>nodeNaturalWidth = 0, nodeNaturalHeight = 0,
               constrainedWidth = 500, constrainedHeight = 500\<rparr>" reactImageCrop "''image/jpeg''"]
  have 2: "crop (onImageLoad reactImageCrop
              \<lparr>nodeNaturalWidth = 0, nodeNaturalHeight = 0,
               constrainedWidth = 500, constrainedHeight = 500\<rparr>
              (initialModalState (getAspectRatioValue LANDSCAPE) ''image/jpeg'')) = None"
    by blast
  from 1 2 show ?thesis by (rule conjI)
qed

section \<open>Cropping and encoding\<close>

lemma croppedCanvas_size:
  "canvasWidth (croppedCanvas img c) = \<lfloor>cwidth c * (real (naturalWidth img) / iwidth img)\<rfloor>
   \<and> canvasHeight (croppedCanvas img c) = \<lfloor>cheight c * (real (naturalHeight img) / iheight img)\<rfloor>
   \<and> drawn (croppedCanvas img c) =
       Some (DrawImage (cx c * scaleX img) (cy c * scaleY img)
               (cwidth c * scaleX img) (cheight c * scaleY img)
               0 0 (cwidth c * scaleX img) (cheight c * scaleY img))"
  by (simp add: croppedCanvas_def scaleX_def scaleY_def Let_def)

lemma croppedCanvas_full_pixel_crop:
  assumes "0 < iwidth img" and "0 < iheight img"
  shows "canvasWidth (croppedCanvas img
            \<lparr>cunit = u, cx = 0, cy = 0, cwidth = iwidth img, cheight = iheight img\<rparr>)
           = int (naturalWidth img)
       \<and> canvasHeight (croppedCanvas img
            \<lparr>cunit = u, cx = 0, cy = 0, cwidth = iwidth img, cheight = iheight img\<rparr>)
           = int (naturalHeight img)"
  using assms by (simp add: croppedCanvas_size)

text \<open>
  C2. \<open>getCroppedImg\<close> multiplies the crop's coordinates and sizes by the scale factors
  and floors the canvas size (\<open>croppedCanvas_size\<close>), and a crop given in displayed
  pixels that covers the whole image gets a canvas of the natural size
  (\<open>croppedCanvas_full_pixel_crop\<close>). The dialog, however, stores the percent rectangle
  of every drag, and of the initial crop, and hands it to \<open>getCroppedImg\<close>, which does
  not read the unit. The claim fails there: an image of natural size 1000 by 1000 shown
  at 500 by 500 and a crop dragged over the whole image, which ReactCrop reports as 100%
  by 100%. The canvas is 200 by 200, its content the top left 200 by 200 natural pixels,
  not the 1000 by 1000 image.
\<close>

theorem C2_percent_crop_scaled_as_pixels:
  "crop (onCropChange \<lparr>cunit = Pixel, cx = 0, cy = 0, cwidth = 500, cheight = 500\<rparr>
                      \<lparr>cunit = Percent, cx = 0, cy = 0, cwidth = 100, cheight = 100\<rparr>
           (onImageLoad lib
              \<lparr>nodeNaturalWidth = 1000, nodeNaturalHeight = 1000,
               constrainedWidth = 500, constrainedHeight = 500\<rparr>
              (initialModalState 1 ''image/jpeg'')))
     = Some \<lparr>cunit = Percent, cx = 0, cy = 0, cwidth = 100, cheight = 100\<rparr>
   \<and> cropInPixels \<lparr>cunit = Percent, cx = 0, cy = 0, cwidth = 100, cheight = 100\<rparr> 500 500
       = (0, 0, 500, 500)
   \<and> currentImage
        (onCropChange \<lparr>cunit = Pixel, cx = 0, cy = 0, cwidth = 500, cheight = 500\<rparr>
                      \<lparr>cunit = Percent, cx = 0, cy = 0, cwidth = 100, cheight = 100\<rparr>
           (onImageLoad lib
              \<lparr>nodeNaturalWidth = 1000, nodeNaturalHeight = 1000,
               constrainedWidth = 500, constrainedHeight = 500\<rparr>
              (initialModalState 1 ''image/jpeg'')))
        \<lparr>nodeNaturalWidth = 1000, nodeNaturalHeight = 1000,
         constrainedWidth = 500, constrainedHeight = 500\<rparr>
       = \<lparr>naturalWidth = 1000, naturalHeight = 1000, iwidth = 500, iheight = 500\<rparr>
   \<and> croppedCanvas \<lparr>naturalWidth = 1000, naturalHeight = 1000, iwidth = 500, iheight = 500\<rparr>
         \<lparr>cunit = Percent, cx = 0, cy = 0, cwidth = 100, cheight = 100\<rparr>
       = \<lparr>canvasWidth = 200, canvasHeight = 200,
          drawn = Some (DrawImage 0 0 200 200 0 0 200 200)\<rparr>"
proof -
  let ?N = "\<lparr>nodeNaturalWidth = 1000, nodeNaturalHeight = 1000,
             constrainedWidth = 500, constrainedHeight = 500\<rparr>"
  let ?S = "onImageLoad lib ?N (initialModalState 1 ''image/jpeg'')"
  have size: "imgSize ?S = \<lparr>swidth = 500, sheight = 500\<rparr>" and sc: "scale ?S = 1"
    by (simp_all add: onImageLoad_def initialModalState_def currentImage_def renderedWidth_def
          renderedHeight_def Let_def)
  have a: "crop (onCropChange \<lparr>cunit = Pixel, cx = 0, cy = 0, cwidth = 500, cheight = 500\<rparr>
                      \<lparr>cunit = Percent, cx = 0, cy = 0, cwidth = 100, cheight = 100\<rparr> ?S)
     = Some \<lparr>cunit = Percent, cx = 0, cy = 0, cwidth = 100, cheight = 100\<rparr>"
    by (simp add: onCropChange_def)
  have b: "cropInPixels \<lparr>cunit = Percent, cx = 0, cy = 0, cwidth = 100, cheight = 100\<rparr> 500 500
       = (0, 0, 500, 500)"
    by (simp add: cropInPixels_def)
  have c: "currentImage
        (onCropChange \<lparr>cunit = Pixel, cx = 0, cy = 0, cwidth = 500, cheight = 500\<rparr>
                      \<lparr>cunit = Percent, cx = 0, cy = 0, cwidth = 100, cheight = 100\<rparr> ?S) ?N
       = \<lparr>naturalWidth = 1000, naturalHeight = 1000, iwidth = 500, iheight = 500\<rparr>"
    by (simp add: currentImage_def renderedWidth_def renderedHeight_def onCropChange_def size sc)
  have d: "croppedCanvas \<lparr>naturalWidth = 1000, naturalHeight = 1000, iwidth = 500, iheight = 500\<rparr>
         \<lparr>cunit = Percent, cx = 0, cy = 0, cwidth = 100, cheight = 100\<rparr>
       = \<lparr>canvasWidth = 200, canvasHeight = 200,
          drawn = Some (DrawImage 0 0 200 200 0 0 200 200)\<rparr>"
    by (simp add: croppedCanvas_def scaleX_def scaleY_def Let_def)
  from a b c d show ?thesis by blast
qed

lemma getCroppedImg_no_blob:
  "toBlob browser (croppedCanvas img c) mime = None \<Longrightarrow>
   getCroppedImg browser img c mime =
     Inl (ErrorObj (if getContext2d browser then ''Canvas is empty''
                    else ''Could not get canvas context''))"
  by (simp add: getCroppedImg_def)

text \<open>
  C5 (as amended). For every crop rectangle whose scaled width or height floors to
  zero, on a browser that serialises a canvas without pixels to no blob,
  \<open>getCroppedImg\<close> never resolves with an image: it rejects with "Canvas is empty",
  the error of every failed serialisation, or with "Could not get canvas context" when
  there is no 2d context. The source has no check of the floored size and no error of
  its own for it.
\<close>

theorem C5_empty_crop_rejected:
  assumes zero: "\<lfloor>cwidth c * scaleX img\<rfloor> = 0 \<or> \<lfloor>cheight c * scaleY img\<rfloor> = 0"
    and std: "noPixelsNoBlob browser"
  shows "getCroppedImg browser img c mime =
           Inl (ErrorObj (if getContext2d browser then ''Canvas is empty''
                          else ''Could not get canvas context''))
       \<and> (\<forall>encoded. getCroppedImg browser img c mime \<noteq> Inr encoded)"
proof -
  have "canvasWidth (croppedCanvas img c) = 0 \<or> canvasHeight (croppedCanvas img c) = 0"
    using zero by (simp add: croppedCanvas_def Let_def)
  then have "toBlob browser (croppedCanvas img c) mime = None"
    using std unfolding noPixelsNoBlob_def by blast
  then show ?thesis
    by (simp add: getCroppedImg_no_blob)
qed


theorem C5_empty_crop_rejected_witness:
  "getCroppedImg
     \<lparr>getContext2d = True,
      toBlob = (\<lambda>c mime. if canvasWidth c = 0 then None
                          else if canvasHeight c = 0 then None
                          else if 8192 < canvasWidth c then None
                          else if 8192 < canvasHeight c then None
                          else Some ''blob''),
      readAsDataURL = (\<lambda>b. ReaderEnded (Some (''data:image/jpeg;base64'', b)))\<rparr>
     \<lparr>naturalWidth = 1000, naturalHeight = 1000, iwidth = 500, iheight = 500\<rparr>
     \<lparr>cunit = Percent, cx = 10, cy = 10, cwidth = 1 / 4, cheight = 1 / 4\<rparr>
     ''image/jpeg''
   = Inl (ErrorObj ''Canvas is empty'')"
proof -
  let ?b = "\<lparr>getContext2d = True,
      toBlob = (\<lambda>c mime. if canvasWidth c = 0 then None
                          else if canvasHeight c = 0 then None
                          else if 8192 < canvasWidth c then None
                          else if 8192 < canvasHeight c then None
                          else Some ''blob''),
      readAsDataURL = (\<lambda>b. ReaderEnded (Some (''data:image/jpeg;base64'', b)))\<rparr>"
  let ?i = "\<lparr>naturalWidth = 1000, naturalHeight = 1000, iwidth = 500, iheight = 500\<rparr>"
  let ?c = "\<lparr>cunit = Percent, cx = 10, cy = 10, cwidth = 1 / 4, cheight = 1 / 4\<rparr>"
  have z: "\<lfloor>cwidth ?c * scaleX ?i\<rfloor> = 0 \<or> \<lfloor>cheight ?c * scaleY ?i\<rfloor> = 0"
    by (simp add: scaleX_def scaleY_def)
  have s: "noPixelsNoBlob ?b"
    by (simp add: noPixelsNoBlob_def)
  from C5_empty_crop_rejected [OF z s, of "''image/jpeg''"] show ?thesis
    by simp
qed

text \<open>
  C5, as stated, fails: the rejection of a crop that floors to zero is not distinct.
  On a browser that gives no blob for a canvas wider or higher than 8192 pixels, the
  crop of a quarter percent (canvas 0 by 0) and a crop whose canvas is 9000 by 9000
  are rejected with the same error; and without a 2d context the crop that floors to
  zero is rejected with the error of the missing context.
\<close>

theorem C5_no_distinct_error_counterexample:
  "canvasWidth (croppedCanvas
       \<lparr>naturalWidth = 1000, naturalHeight = 1000, iwidth = 500, iheight = 500\<rparr>
       \<lparr>cunit = Percent, cx = 10, cy = 10, cwidth = 1 / 4, cheight = 1 / 4\<rparr>) = 0
   \<and> getCroppedImg
       \<lparr>getContext2d = True,
        toBlob = (\<lambda>c mime. if canvasWidth c = 0 then None
                            else if canvasHeight c = 0 then None
                            else if 8192 < canvasWidth c then None
                            else if 8192 < canvasHeight c then None
                            else Some ''blob''),
        readAsDataURL = (\<lambda>b. ReaderEnded (Some (''data:image/jpeg;base64'', b)))\<rparr>
       \<lparr>naturalWidth = 1000, naturalHeight = 1000, iwidth = 500, iheight = 500\<rparr>
       \<lparr>cunit = Percent, cx = 10, cy = 10, cwidth = 1 / 4, cheight = 1 / 4\<rparr>
       ''image/jpeg''
     = Inl (ErrorObj ''Canvas is empty'')
   \<and> canvasWidth (croppedCanvas
       \<lparr>naturalWidth = 10000, naturalHeight = 10000, iwidth = 500, iheight = 500\<rparr>
       \<lparr>cunit = Pixel, cx = 25, cy = 25, cwidth = 450, cheight = 450\<rparr>) = 9000
   \<and> canvasHeight (croppedCanvas
       \<lparr>naturalWidth = 10000, naturalHeight = 10000, iwidth = 500, iheight = 500\<rparr>
       \<lparr>cunit = Pixel, cx = 25, cy = 25, cwidth = 450, cheight = 450\<rparr>) = 9000
   \<and> getCroppedImg
       \<lparr>getContext2d = True,
        toBlob = (\<lambda>c mime. if canvasWidth c = 0 then None
                            else if canvasHeight c = 0 then None
                            else if 8192 < canvasWidth c then None
                            else if 8192 < canvasHeight c then None
                            else Some ''blob''),
        readAsDataURL = (\<lambda>b. ReaderEnded (Some (''data:image/jpeg;base64'', b)))\<rparr>
       \<lparr>naturalWidth = 10000, naturalHeight = 10000, iwidth = 500, iheight = 500\<rparr>
       \<lparr>cunit = Pixel, cx = 25, cy = 25, cwidth = 450, cheight = 450\<rparr>
       ''image/jpeg''
     = Inl (ErrorObj ''Canvas is empty'')
   \<and> getCroppedImg
       \<lparr>getContext2d = False,
        toBlob = (\<lambda>c mime. None),
        readAsDataURL = (\<lambda>b. ReaderEnded (Some (''data:image/jpeg;base64'', b)))\<rparr>
       \<lparr>naturalWidth = 1000, naturalHeight = 1000, iwidth = 500, iheight = 500\<rparr>
       \<lparr>cunit = Percent, cx = 10, cy = 10, cwidth = 1 / 4, cheight = 1 / 4\<rparr>
       ''image/jpeg''
     = Inl (ErrorObj ''Could not get canvas context'')"
proof -
  have a: "croppedCanvas
       \<lparr>naturalWidth = 1000, naturalHeight = 1000, iwidth = 500, iheight = 500\<rparr>
       \<lparr>cunit = Percent, cx = 10, cy = 10, cwidth = 1 / 4, cheight = 1 / 4\<rparr>
     = \<lparr>canvasWidth = 0, canvasHeight = 0,
        drawn = Some (DrawImage 20 20 (1 / 2) (1 / 2) 0 0 (1 / 2) (1 / 2))\<rparr>"
    by (simp add: croppedCanvas_def scaleX_def scaleY_def Let_def)
  have b: "croppedCanvas
       \<lparr>naturalWidth = 10000, naturalHeight = 10000, iwidth = 500, iheight = 500\<rparr>
       \<lparr>cunit = Pixel, cx = 25, cy = 25, cwidth = 450, cheight = 450\<rparr>
     = \<lparr>canvasWidth = 9000, canvasHeight = 9000,
        drawn = Some (DrawImage 500 500 9000 9000 0 0 9000 9000)\<rparr>"
    by (simp add: croppedCanvas_def scaleX_def scaleY_def Let_def)
  show ?thesis
    by (simp add: getCroppedImg_def a b)
qed

lemma cropModalSave_failed:
  "handleSaveClick browser modal = (modal', None, logs) \<Longrightarrow>
   cropModalSave browser modal app = (modal', app\<lparr>console := console app @ logs\<rparr>)"
  by (simp add: cropModalSave_def Let_def)

text \<open>
  C9. The claim fails on the save path of the crop dialog. \<open>handleSaveClick\<close> catches
  the rejection of \<open>getCroppedImg\<close> and writes it to the console only (its comment says
  that an error could be shown to the user here); \<open>onSave\<close> is not called and \<open>App\<close> is
  told nothing. At a crop that floors to zero: the dialog and the application are as
  before, \<open>error\<close> is still empty, so no banner is shown, and the console has the line
  "Cropping failed".
\<close>

theorem C9_crop_failure_only_logged:
  "cropModalSave
     \<lparr>getContext2d = True,
      toBlob = (\<lambda>c mime. if canvasWidth c = 0 then None
                          else if canvasHeight c = 0 then None
                          else if 8192 < canvasWidth c then None
                          else if 8192 < canvasHeight c then None
                          else Some ''blob''),
      readAsDataURL = (\<lambda>b. ReaderEnded (Some (''data:image/jpeg;base64'', b)))\<rparr>
     ((initialModalState 1 ''image/jpeg'')
        \<lparr>imgRef := Some \<lparr>nodeNaturalWidth = 1000, nodeNaturalHeight = 1000,
                          constrainedWidth = 500, constrainedHeight = 500\<rparr>,
         imgSize := \<lparr>swidth = 500, sheight = 500\<rparr>,
         crop := Some \<lparr>cunit = Percent, cx = 10, cy = 10, cwidth = 1 / 4, cheight = 1 / 4\<rparr>\<rparr>)
     (initialAppState
        \<lparr>originalProductImage :=
           Some \<lparr>dataUrl = ''data:image/jpeg;base64,UFJPRA=='', originalMimeType = ''image/jpeg''\<rparr>,
         isCropModalOpen := True\<rparr>)
   = ((initialModalState 1 ''image/jpeg'')
        \<lparr>imgRef := Some \<lparr>nodeNaturalWidth = 1000, nodeNaturalHeight = 1000,
                          constrainedWidth = 500, constrainedHeight = 500\<rparr>,
         imgSize := \<lparr>swidth = 500, sheight = 500\<rparr>,
         crop := Some \<lparr>cunit = Percent, cx = 10, cy = 10, cwidth = 1 / 4, cheight = 1 / 4\<rparr>\<rparr>,
      initialAppState
        \<lparr>originalProductImage :=
           Some \<lparr>dataUrl = ''data:image/jpeg;base64,UFJPRA=='', originalMimeType = ''image/jpeg''\<rparr>,
         isCropModalOpen := True,
         console := [(''Cropping failed'', ErrorObj ''Canvas is empty'')]\<rparr>)
   \<and> error (initialAppState
        \<lparr>originalProductImage :=
           Some \<lparr>dataUrl = ''data:image/jpeg;base64,UFJPRA=='', originalMimeType = ''image/jpeg''\<rparr>,
         isCropModalOpen := True,
         console := [(''Cropping failed'', ErrorObj ''Canvas is empty'')]\<rparr>) = None"
proof -
  let ?b = "\<lparr>getContext2d = True,
      toBlob = (\<lambda>c mime. if canvasWidth c = 0 then None
                          else if canvasHeight c = 0 then None
                          else if 8192 < canvasWidth c then None
                          else if 8192 < canvasHeight c then None
                          else Some ''blob''),
      readAsDataURL = (\<lambda>b. ReaderEnded (Some (''data:image/jpeg;base64'', b)))\<rparr>"
  let ?N = "\<lparr>nodeNaturalWidth = 1000, nodeNaturalHeight = 1000,
             constrainedWidth = 500, constrainedHeight = 500\<rparr>"
  let ?c = "\<lparr>cunit = Percent, cx = 10, cy = 10, cwidth = 1 / 4, cheight = 1 / 4\<rparr>"
  let ?M = "(initialModalState 1 ''image/jpeg'')
        \<lparr>imgRef := Some ?N, imgSize := \<lparr>swidth = 500, sheight = 500\<rparr>, crop := Some ?c\<rparr>"
  have img: "currentImage ?M ?N
               = \<lparr>naturalWidth = 1000, naturalHeight = 1000, iwidth = 500, iheight = 500\<rparr>"
    by (simp add: currentImage_def renderedWidth_def renderedHeight_def initialModalState_def)
  have cv: "croppedCanvas
       \<lparr>naturalWidth = 1000, naturalHeight = 1000, iwidth = 500, iheight = 500\<rparr> ?c
     = \<lparr>canvasWidth = 0, canvasHeight = 0,
        drawn = Some (DrawImage 20 20 (1 / 2) (1 / 2) 0 0 (1 / 2) (1 / 2))\<rparr>"
    by (simp add: croppedCanvas_def scaleX_def scaleY_def Let_def)
  have g: "getCroppedImg ?b (currentImage ?M ?N) ?c ''image/jpeg''
             = Inl (ErrorObj ''Canvas is empty'')"
    unfolding img by (simp add: getCroppedImg_def cv)
  have m: "imgRef ?M = Some ?N" "crop ?M = Some ?c" "modalMimeType ?M = ''image/jpeg''"
    "?M\<lparr>isSaving := False\<rparr> = ?M"
    by (simp_all add: initialModalState_def)
  have h: "handleSaveClick ?b ?M = (?M, None, [(''Cropping failed'', ErrorObj ''Canvas is empty'')])"
    unfolding handleSaveClick_def m option.case g using m(4) by simp
  show ?thesis
    unfolding cropModalSave_failed [OF h] by (simp add: initialAppState_def)
qed

end
